theory Spec2Isabelle
  imports Complex_Main
begin

section \<open>JavaScript values\<close>

text \<open>
  The layer factory of \<^verbatim>\<open>src/factory/Layer.js\<close> receives configuration objects parsed from
  JSON documents and copies their fields into the option objects of the map library's
  constructors.  The values it handles are the JSON values plus \<^verbatim>\<open>undefined\<close> (the result of
  reading a property an object does not have) and \<^verbatim>\<open>NaN\<close>.  An object is the list of its own
  properties in insertion order.  An array is an object too: besides its elements it carries
  the named properties a program has stored on it (none after parsing).
\<close>

datatype jsval =
    JUndefined
  | JNull
  | JBool bool
  | JNum real
  | JNaN
  | JStr string
  | JArr "jsval list" "(string \<times> jsval) list"
  | JObj "(string \<times> jsval) list"

datatype error = TypeError | FetchError

text \<open>
  \<^verbatim>\<open>!v\<close> and \<^verbatim>\<open>a || b\<close> go through the language's truthiness: \<^verbatim>\<open>undefined\<close>, \<^verbatim>\<open>null\<close>,
  \<^verbatim>\<open>false\<close>, zero, \<^verbatim>\<open>NaN\<close> and the empty string are falsy, everything else (every object and
  array included) is truthy.
\<close>

fun truthy :: "jsval \<Rightarrow> bool" where
  "truthy JUndefined = False"
| "truthy JNull = False"
| "truthy (JBool b) = b"
| "truthy (JNum x) = (x \<noteq> 0)"
| "truthy JNaN = False"
| "truthy (JStr s) = (s \<noteq> [])"
| "truthy (JArr xs ps) = True"
| "truthy (JObj ps) = True"

definition js_or :: "jsval \<Rightarrow> jsval \<Rightarrow> jsval" where
  "js_or a b = (if truthy a then a else b)"

fun is_object :: "jsval \<Rightarrow> bool" where
  "is_object (JObj ps) = True"
| "is_object (JArr xs ps) = True"
| "is_object v = False"

text \<open>
  Reading a property: the own property when there is one, \<^verbatim>\<open>undefined\<close> otherwise.  None of the
  names the factory reads (\<^verbatim>\<open>lid\<close>, \<^verbatim>\<open>type\<close>, \<^verbatim>\<open>name\<close>, \<^verbatim>\<open>url\<close>, ...) is inherited from a
  prototype of objects, arrays or primitives.  Reading from \<^verbatim>\<open>null\<close> or \<^verbatim>\<open>undefined\<close> throws;
  the callers below test \<open>is_object\<close> before they read.
\<close>

fun own_props :: "jsval \<Rightarrow> (string \<times> jsval) list" where
  "own_props (JObj ps) = ps"
| "own_props (JArr xs ps) = ps"
| "own_props v = []"

definition get_prop :: "jsval \<Rightarrow> string \<Rightarrow> jsval" where
  "get_prop v k = (case map_of (own_props v) k of None \<Rightarrow> JUndefined | Some x \<Rightarrow> x)"

text \<open>
  Writing a property of an object: an existing property keeps its place, a new one goes
  last.
\<close>

fun put :: "string \<Rightarrow> jsval \<Rightarrow> (string \<times> jsval) list \<Rightarrow> (string \<times> jsval) list" where
  "put k v [] = [(k, v)]"
| "put k v (p # ps) = (if fst p = k then (k, v) # ps else p # put k v ps)"

fun set_prop :: "jsval \<Rightarrow> string \<Rightarrow> jsval \<Rightarrow> jsval" where
  "set_prop (JObj ps) k v = JObj (put k v ps)"
| "set_prop (JArr xs ps) k v = JArr xs (put k v ps)"
| "set_prop w k v = w"

text \<open>
  A value used as a property name is converted to a string first.  \<open>to_property_key\<close> gives
  that string where it can name a property of the format table or of its prototype.  The
  result is \<open>None\<close> for a number (its text is made of digits, a sign, a point and an
  exponent, or is \<^verbatim>\<open>Infinity\<close>) and for a plain object (its text is \<^verbatim>\<open>[object Object]\<close>, or the
  conversion throws when the object has a \<^verbatim>\<open>toString\<close> property of its own): neither ever
  names a constructor.  An array is converted by joining its elements' texts with commas,
  \<^verbatim>\<open>null\<close> and \<^verbatim>\<open>undefined\<close> elements counting as empty.
\<close>

fun to_property_key :: "jsval \<Rightarrow> string option"
  and join_keys :: "jsval list \<Rightarrow> string option" where
  "to_property_key JUndefined = Some ''undefined''"
| "to_property_key JNull = Some ''null''"
| "to_property_key (JBool b) = Some (if b then ''true'' else ''false'')"
| "to_property_key (JNum x) = None"
| "to_property_key JNaN = Some ''NaN''"
| "to_property_key (JStr s) = Some s"
| "to_property_key (JArr xs ps) = join_keys xs"
| "to_property_key (JObj ps) = None"
| "join_keys [] = Some []"
| "join_keys (x # xs) =
     (case (if x = JUndefined \<or> x = JNull then Some [] else to_property_key x) of
        None \<Rightarrow> None
      | Some a \<Rightarrow>
          (if xs = [] then Some a
           else (case join_keys xs of None \<Rightarrow> None | Some b \<Rightarrow> Some (a @ '','' @ b))))"

section \<open>What the map library's constructors receive\<close>

text \<open>
  The layer, source and format classes belong to the map library.  A constructed object is
  the class together with the options (or arguments) the factory passed to \<^verbatim>\<open>new\<close>, in the
  order of the object literal.
\<close>

datatype layer_class = TileLayer | VectorLayer | VectorTileLayer

datatype source_class = TileWmsSource | XyzSource | OsmSource | VectorSource | VectorTileSource

datatype format_class = MvtFormat | GeoJsonFormat | TopoJsonFormat | KmlFormat | ObjectConstructor

datatype format = Format format_class "jsval list"

datatype srcopt = SVal jsval | SFormat format

datatype source = Source source_class "(string \<times> srcopt) list"

datatype 'st optval = Val jsval | Src source | Sty 'st

datatype 'st layer = Layer layer_class "(string \<times> 'st optval) list"

fun layer_opt :: "'st layer \<Rightarrow> string \<Rightarrow> 'st optval option" where
  "layer_opt (Layer c opts) k = map_of opts k"

fun source_opt :: "source \<Rightarrow> string \<Rightarrow> srcopt option" where
  "source_opt (Source c opts) k = map_of opts k"

text \<open>What \<^verbatim>\<open>getInstance\<close> resolves with: \<^verbatim>\<open>null\<close>, a layer, or an array of such results.\<close>

datatype 'st product = PNull | PLayer "'st layer" | PArray "'st product list"

text \<open>
  One call of \<^verbatim>\<open>getInstance\<close> that settles: the configuration object as the call leaves it,
  what the returned promise settles with, and the calls made for the entries of a fetched
  manifest.  Each of these is the entry as its call leaves it, with the run of the call
  when that settles.
\<close>

datatype 'st run =
  Run (conf_after: jsval) (outcome: "error + 'st product")
      (entries_after: "(jsval \<times> 'st run option) list")

section \<open>The environment of the factory\<close>

text \<open>
  Four things come from outside \<^verbatim>\<open>Layer.js\<close> and are parameters of the model.
  \<^item> \<open>styleFactory\<close> is \<^verbatim>\<open>OlStyleFactory.getInstance\<close> of \<^verbatim>\<open>./OlStyle\<close>, the style resolver.
  \<^item> \<open>randomText p\<close> is the text of \<^verbatim>\<open>Math.random().toString(36)\<close> drawn for the configuration
    at position \<open>p\<close>: \<open>[]\<close> is the configuration given to the outermost call, \<open>p @ [i]\<close> the
    \<open>i\<close>-th entry of the manifest fetched for \<open>p\<close>.  \<^verbatim>\<open>Math.random\<close> returns a number from 0
    (included) to 1 (excluded), so the text is \<^verbatim>\<open>0\<close>, or \<^verbatim>\<open>0.\<close> followed by digits of radix 36.
  \<^item> \<open>fetchJson p url\<close> is \<^verbatim>\<open>(await fetch(url)).json()\<close> for the collection at position \<open>p\<close>:
    the parsed document, or the failure of the request or of the parser.
  \<^item> \<open>settledAt p\<close> is the instant at which the promise of the collection at position \<open>p\<close>
    settles, when it does.  It depends on the network.  Only the order of the instants of
    the collections listed in one manifest is used; those given the same instant are taken
    in the order of the manifest.
\<close>

type_synonym path = "nat list"

record 'st env =
  styleFactory :: "jsval \<Rightarrow> 'st"
  randomText :: "path \<Rightarrow> string"
  fetchJson :: "path \<Rightarrow> jsval \<Rightarrow> error + jsval"
  settledAt :: "path \<Rightarrow> nat"

section \<open>The layer factory\<close>

text \<open>
  \<^verbatim>\<open>formatMapping\<close> is an object literal with four properties.  An object literal inherits from
  \<^verbatim>\<open>Object.prototype\<close>, so \<^verbatim>\<open>formatMapping[k]\<close> also finds the inherited members.  Of these only
  \<^verbatim>\<open>constructor\<close> (the function \<^verbatim>\<open>Object\<close>) can be called with \<^verbatim>\<open>new\<close>; the others
  (\<^verbatim>\<open>toString\<close>, \<^verbatim>\<open>hasOwnProperty\<close>, \<^verbatim>\<open>__proto__\<close>, ...) are methods or objects that \<^verbatim>\<open>new\<close>
  rejects with a TypeError, as it rejects \<^verbatim>\<open>undefined\<close>.  \<open>format_constructor\<close> is the lookup
  followed by that test: \<open>None\<close> when \<^verbatim>\<open>new this.formatMapping[k](...)\<close> throws.
\<close>

definition formatMapping :: "(string \<times> format_class) list" where
  "formatMapping =
     [(''MVT'', MvtFormat),
      (''GeoJSON'', GeoJsonFormat),
      (''TopoJSON'', TopoJsonFormat),
      (''KML'', KmlFormat)]"

definition format_constructor :: "jsval \<Rightarrow> format_class option" where
  "format_constructor v =
     (case to_property_key v of
        None \<Rightarrow> None
      | Some k \<Rightarrow>
          (case map_of formatMapping k of
             Some c \<Rightarrow> Some c
           | None \<Rightarrow> if k = ''constructor'' then Some ObjectConstructor else None))"

definition new_format :: "jsval \<Rightarrow> jsval list \<Rightarrow> error + format" where
  "new_format v args =
     (case format_constructor v of None \<Rightarrow> Inl TypeError | Some c \<Rightarrow> Inr (Format c args))"

text \<open>\<^verbatim>\<open>s.substr(start, len)\<close> for a start and a length that are not negative.\<close>

definition substr :: "string \<Rightarrow> nat \<Rightarrow> nat \<Rightarrow> string" where
  "substr s start len = take len (drop start s)"

text \<open>\<^verbatim>\<open>randomId\<close>, applied to the text of the random number it draws.\<close>

definition randomId :: "string \<Rightarrow> string" where
  "randomId r = substr r 2 5"

definition createWmsLayer :: "jsval \<Rightarrow> 'st layer" where
  "createWmsLayer lConf =
     Layer TileLayer
       [(''name'', Val (get_prop lConf ''name'')),
        (''lid'', Val (get_prop lConf ''lid'')),
        (''displayInLayerList'', Val (get_prop lConf ''displayInLayerList'')),
        (''selectable'', Val (js_or (get_prop lConf ''selectable'') (JBool False))),
        (''extent'', Val (get_prop lConf ''extent'')),
        (''visible'', Val (get_prop lConf ''visible'')),
        (''opacity'', Val (get_prop lConf ''opacity'')),
        (''source'', Src (Source TileWmsSource
           [(''url'', SVal (get_prop lConf ''url'')),
            (''params'', SVal (JObj
               [(''LAYERS'', get_prop lConf ''layers''),
                (''TILED'', get_prop lConf ''tiled'')])),
            (''serverType'', SVal (get_prop lConf ''serverType'')),
            (''attributions'', SVal (get_prop lConf ''attributions''))]))]"

definition createXyzLayer :: "jsval \<Rightarrow> 'st layer" where
  "createXyzLayer lConf =
     Layer TileLayer
       [(''name'', Val (get_prop lConf ''name'')),
        (''lid'', Val (get_prop lConf ''lid'')),
        (''displayInLayerList'', Val (get_prop lConf ''displayInLayerList'')),
        (''selectable'', Val (js_or (get_prop lConf ''selectable'') (JBool False))),
        (''visible'', Val (get_prop lConf ''visible'')),
        (''opacity'', Val (get_prop lConf ''opacity'')),
        (''source'', Src (Source XyzSource
           [(''url'', SVal (get_prop lConf ''url''))]))]"

definition createOsmLayer :: "jsval \<Rightarrow> 'st layer" where
  "createOsmLayer lConf =
     Layer TileLayer
       [(''name'', Val (get_prop lConf ''name'')),
        (''lid'', Val (get_prop lConf ''lid'')),
        (''displayInLayerList'', Val (get_prop lConf ''displayInLayerList'')),
        (''selectable'', Val (js_or (get_prop lConf ''selectable'') (JBool False))),
        (''visible'', Val (get_prop lConf ''visible'')),
        (''opacity'', Val (get_prop lConf ''opacity'')),
        (''source'', Src (Source OsmSource []))]"

definition createVectorLayer :: "'st env \<Rightarrow> jsval \<Rightarrow> error + 'st layer" where
  "createVectorLayer env lConf =
     (case new_format (get_prop lConf ''format'') [get_prop lConf ''formatConfig''] of
        Inl e \<Rightarrow> Inl e
      | Inr fmt \<Rightarrow> Inr (Layer VectorLayer
          [(''name'', Val (get_prop lConf ''name'')),
           (''lid'', Val (get_prop lConf ''lid'')),
           (''displayInLayerList'', Val (get_prop lConf ''displayInLayerList'')),
           (''selectable'', Val (js_or (get_prop lConf ''selectable'') (JBool False))),
           (''extent'', Val (get_prop lConf ''extent'')),
           (''visible'', Val (get_prop lConf ''visible'')),
           (''opacity'', Val (get_prop lConf ''opacity'')),
           (''source'', Src (Source VectorSource
              [(''url'', SVal (get_prop lConf ''url'')),
               (''format'', SFormat fmt),
               (''attributions'', SVal (get_prop lConf ''attributions''))])),
           (''style'', Sty (styleFactory env (get_prop lConf ''style''))),
           (''styleSelected'', Sty (styleFactory env (get_prop lConf ''styleSelected''))),
           (''hoverable'', Val (get_prop lConf ''hoverable'')),
           (''hoverAttribute'', Val (get_prop lConf ''hoverAttribute''))]))"

definition createVectorTileLayer :: "'st env \<Rightarrow> jsval \<Rightarrow> error + 'st layer" where
  "createVectorTileLayer env lConf =
     (case new_format (get_prop lConf ''format'') [] of
        Inl e \<Rightarrow> Inl e
      | Inr fmt \<Rightarrow> Inr (Layer VectorTileLayer
          [(''name'', Val (get_prop lConf ''name'')),
           (''lid'', Val (get_prop lConf ''lid'')),
           (''displayInLayerList'', Val (get_prop lConf ''displayInLayerList'')),
           (''selectable'', Val (js_or (get_prop lConf ''selectable'') (JBool False))),
           (''visible'', Val (get_prop lConf ''visible'')),
           (''opacity'', Val (get_prop lConf ''opacity'')),
           (''source'', Src (Source VectorTileSource
              [(''url'', SVal (get_prop lConf ''url'')),
               (''format'', SFormat fmt),
               (''attributions'', SVal (get_prop lConf ''attributions''))])),
           (''style'', Sty (styleFactory env (get_prop lConf ''style''))),
           (''hoverable'', Val (get_prop lConf ''hoverable'')),
           (''hoverAttribute'', Val (get_prop lConf ''hoverAttribute''))]))"

definition as_layer :: "error + 'st layer \<Rightarrow> error + 'st product" where
  "as_layer r = (case r of Inl e \<Rightarrow> Inl e | Inr l \<Rightarrow> Inr (PLayer l))"

text \<open>
  \<^verbatim>\<open>Promise.all\<close> over the promises of the entries.  It rejects as soon as one of them
  rejects, with the reason of the first to reject in time, whether or not the others ever
  settle.  An entry that is not itself a collection rejects while the manifest is mapped
  (the store to \<^verbatim>\<open>layerDef.lid\<close> or the builder throws), before any nested collection, whose
  rejection can only follow its own fetch; these come in the order of the manifest.  Among
  the nested collections that reject, the first is the one with the least instant
  \<open>settledAt\<close>.  When no entry rejects, the promise resolves with the array of the results,
  in the order of the manifest, once every entry has resolved, and never settles when one
  of them never does.
\<close>

definition awaits_fetch :: "'st run \<Rightarrow> bool" where
  "awaits_fetch r =
     (is_object (conf_after r) \<and> get_prop (conf_after r) ''type'' = JStr ''LAYERCOLLECTION'')"

fun immediate_rejections :: "'st run option list \<Rightarrow> error list" where
  "immediate_rejections [] = []"
| "immediate_rejections (None # cs) = immediate_rejections cs"
| "immediate_rejections (Some r # cs) =
     (case outcome r of
        Inl e \<Rightarrow> if awaits_fetch r then immediate_rejections cs
                 else e # immediate_rejections cs
      | Inr q \<Rightarrow> immediate_rejections cs)"

fun deferred_rejections ::
    "'st env \<Rightarrow> path \<Rightarrow> nat \<Rightarrow> 'st run option list \<Rightarrow> (nat \<times> error) list" where
  "deferred_rejections env p i [] = []"
| "deferred_rejections env p i (None # cs) = deferred_rejections env p (Suc i) cs"
| "deferred_rejections env p i (Some r # cs) =
     (case outcome r of
        Inl e \<Rightarrow> if awaits_fetch r
                 then (settledAt env (p @ [i]), e) # deferred_rejections env p (Suc i) cs
                 else deferred_rejections env p (Suc i) cs
      | Inr q \<Rightarrow> deferred_rejections env p (Suc i) cs)"

fun earliest :: "(nat \<times> error) list \<Rightarrow> (nat \<times> error) option" where
  "earliest [] = None"
| "earliest (x # xs) =
     (case earliest xs of
        None \<Rightarrow> Some x
      | Some y \<Rightarrow> if fst y < fst x then Some y else Some x)"

fun resolutions :: "'st run option list \<Rightarrow> 'st product list option" where
  "resolutions [] = Some []"
| "resolutions (None # cs) = None"
| "resolutions (Some r # cs) =
     (case outcome r of
        Inl e \<Rightarrow> None
      | Inr q \<Rightarrow> map_option (Cons q) (resolutions cs))"

definition promise_all ::
    "'st env \<Rightarrow> path \<Rightarrow> 'st run option list \<Rightarrow> (error + 'st product) option" where
  "promise_all env p calls =
     (case immediate_rejections calls of
        e # es \<Rightarrow> Some (Inl e)
      | [] \<Rightarrow>
          (case earliest (deferred_rejections env p 0 calls) of
             Some te \<Rightarrow> Some (Inl (snd te))
           | None \<Rightarrow> map_option (\<lambda>qs. Inr (PArray qs)) (resolutions calls)))"

text \<open>
  The first statement of \<^verbatim>\<open>getInstance\<close>: a configuration without a truthy \<^verbatim>\<open>lid\<close> is given
  a generated one.
\<close>

definition apply_lid :: "'st env \<Rightarrow> path \<Rightarrow> jsval \<Rightarrow> jsval" where
  "apply_lid env p lConf =
     (if \<not> truthy (get_prop lConf ''lid'')
      then set_prop lConf ''lid'' (JStr (randomId (randomText env p)))
      else lConf)"

text \<open>
  \<^verbatim>\<open>getInstance\<close> and \<^verbatim>\<open>createLayersFromCollection\<close> call each other: a manifest may list
  further collections, and a manifest that lists its own address never stops being fetched.
  The first argument after the environment bounds the depth of nested collections.  The
  result is \<open>None\<close> for a promise that does not settle within the bound: a collection at
  the bound, and a collection none of whose entries rejects and one of whose entries does
  not settle.

  \<^verbatim>\<open>getInstance\<close> reads and writes \<^verbatim>\<open>lConf.lid\<close> first, which throws a TypeError unless
  \<^verbatim>\<open>lConf\<close> is an object (the module is in strict mode, where storing a property on a number,
  string or boolean throws as reading one from \<^verbatim>\<open>null\<close> does).  An \<^verbatim>\<open>async\<close> function turns the
  exception into a rejected promise.  The callback of \<^verbatim>\<open>createLayersFromCollection\<close> stores
  \<^verbatim>\<open>layerDef.lid\<close> under the same condition; the store and the first statement of the call
  it makes are done while the manifest is mapped, whether or not the call settles.
\<close>

fun getInstance :: "'st env \<Rightarrow> nat \<Rightarrow> path \<Rightarrow> jsval \<Rightarrow> 'st run option"
  and createLayersFromCollection :: "'st env \<Rightarrow> nat \<Rightarrow> path \<Rightarrow> jsval \<Rightarrow> 'st run option" where
  "getInstance env fuel p lConf0 =
     (if \<not> is_object lConf0 then Some (Run lConf0 (Inl TypeError) [])
      else
        let lConf = apply_lid env p lConf0
        in
          if get_prop lConf ''type'' = JStr ''WMS'' then
            Some (Run lConf (Inr (PLayer (createWmsLayer lConf))) [])
          else if get_prop lConf ''type'' = JStr ''XYZ'' then
            Some (Run lConf (Inr (PLayer (createXyzLayer lConf))) [])
          else if get_prop lConf ''type'' = JStr ''OSM'' then
            Some (Run lConf (Inr (PLayer (createOsmLayer lConf))) [])
          else if get_prop lConf ''type'' = JStr ''VECTOR'' then
            Some (Run lConf (as_layer (createVectorLayer env lConf)) [])
          else if get_prop lConf ''type'' = JStr ''VECTORTILE'' then
            Some (Run lConf (as_layer (createVectorTileLayer env lConf)) [])
          else if get_prop lConf ''type'' = JStr ''LAYERCOLLECTION'' then
            createLayersFromCollection env fuel p lConf
          else
            Some (Run lConf (Inr PNull) []))"
| "createLayersFromCollection env 0 p lConf = None"
| "createLayersFromCollection env (Suc fuel) p lConf =
     (case fetchJson env p (get_prop lConf ''url'') of
        Inl e \<Rightarrow> Some (Run lConf (Inl e) [])
      | Inr response \<Rightarrow>
          (case response of
             JArr entries ps \<Rightarrow>
               (let calls = map (\<lambda>i.
                         let layerDef = entries ! i in
                           if \<not> is_object layerDef
                           then (layerDef, Some (Run layerDef (Inl TypeError) []))
                           else
                             let entry = set_prop layerDef ''lid'' (get_prop layerDef ''name'')
                             in (apply_lid env (p @ [i]) entry,
                                 getInstance env fuel (p @ [i]) entry))
                       [0 ..< length entries]
                in case promise_all env p (map snd calls) of
                     None \<Rightarrow> None
                   | Some settled \<Rightarrow> Some (Run lConf settled calls))
           | _ \<Rightarrow> Some (Run lConf (Inl TypeError) [])))"

section \<open>A sample environment\<close>

text \<open>
  The environment of the examples: styles are handed through, every random draw has the
  text \<open>t\<close>, and two addresses answer: \<^verbatim>\<open>layers.json\<close> with a manifest of two named basemap
  layers, \<^verbatim>\<open>unnamed.json\<close> with a manifest of one basemap layer that has a \<^verbatim>\<open>lid\<close> and no
  \<^verbatim>\<open>name\<close>.  All collections are given the same instant.
\<close>

definition sample_env :: "string \<Rightarrow> jsval env" where
  "sample_env t =
     \<lparr> styleFactory = (\<lambda>v. v),
       randomText = (\<lambda>p. t),
       fetchJson = (\<lambda>p url.
         if url = JStr ''layers.json''
         then Inr (JArr [JObj [(''name'', JStr ''a''), (''type'', JStr ''OSM'')],
                         JObj [(''name'', JStr ''b''), (''type'', JStr ''OSM'')]] [])
         else if url = JStr ''unnamed.json''
         then Inr (JArr [JObj [(''lid'', JStr ''old''), (''type'', JStr ''OSM'')]] [])
         else Inl FetchError),
       settledAt = (\<lambda>p. 0) \<rparr>"

section \<open>Properties of the value operations\<close>

declare getInstance.simps [simp del]

lemma map_of_put: "map_of (put k v ps) = (map_of ps)(k \<mapsto> v)"
  by (induction ps) auto

lemma get_prop_put:
  "get_prop (JObj (put k v ps)) k' = (if k' = k then v else get_prop (JObj ps) k')"
  "get_prop (JArr xs (put k v ps)) k' = (if k' = k then v else get_prop (JArr xs ps) k')"
  by (simp_all add: get_prop_def map_of_put)

lemma get_prop_set_prop:
  "is_object w \<Longrightarrow> get_prop (set_prop w k v) k' = (if k' = k then v else get_prop w k')"
  by (cases w) (simp_all add: get_prop_put)

lemma is_object_set_prop: "is_object (set_prop w k v) = is_object w"
  by (cases w) simp_all

lemma is_object_apply_lid: "is_object (apply_lid env p w) = is_object w"
  by (simp add: apply_lid_def is_object_set_prop)

lemma get_prop_apply_lid:
  "is_object w \<Longrightarrow> get_prop (apply_lid env p w) k =
     (if k = ''lid'' \<and> \<not> truthy (get_prop w ''lid'') then JStr (randomId (randomText env p))
      else get_prop w k)"
  by (simp add: apply_lid_def get_prop_set_prop)

lemma apply_lid_truthy: "truthy (get_prop w ''lid'') \<Longrightarrow> apply_lid env p w = w"
  by (simp add: apply_lid_def)


lemma format_constructor_None:
  "format_constructor v = None \<longleftrightarrow>
     to_property_key v \<notin> Some ` {''MVT'', ''GeoJSON'', ''TopoJSON'', ''KML'', ''constructor''}"
  by (auto simp: format_constructor_def formatMapping_def split: option.splits if_splits)


lemmas builders =
  createWmsLayer_def createXyzLayer_def createOsmLayer_def createVectorLayer_def
  createVectorTileLayer_def new_format_def as_layer_def js_or_def

lemmas run_simps = getInstance.simps(1) apply_lid_def sample_env_def get_prop_def Let_def
  builders promise_all_def awaits_fetch_def randomId_def substr_def

section \<open>Properties of a call\<close>

lemma collection_conf_after:
  "createLayersFromCollection env fuel p c = Some r \<Longrightarrow> conf_after r = c"
  by (cases fuel) (auto simp: Let_def split: sum.splits jsval.splits option.splits)

lemma promise_all_no_layer: "promise_all env p cs \<noteq> Some (Inr (PLayer l))"
  by (auto simp add: promise_all_def split: list.splits option.splits)

lemma collection_no_layer:
  "createLayersFromCollection env fuel p c = Some r \<Longrightarrow> outcome r \<noteq> Inr (PLayer l)"
  by (cases fuel)
     (auto simp: promise_all_no_layer Let_def split: sum.splits jsval.splits option.splits)

text \<open>The only write of \<^verbatim>\<open>getInstance\<close> to its argument is the identifier it generates.\<close>

lemma getInstance_conf_after:
  assumes "getInstance env fuel p v = Some r"
  shows "conf_after r = (if is_object v then apply_lid env p v else v)"
  using assms
  by (auto simp add: getInstance.simps(1) Let_def split: if_splits dest: collection_conf_after)

text \<open>A call for anything but a collection settles, whatever the bound.\<close>

lemma getInstance_returns:
  assumes "get_prop v ''type'' \<noteq> JStr ''LAYERCOLLECTION''"
  shows "\<exists>r. getInstance env fuel p v = Some r"
proof (cases "is_object v")
  case False
  then show ?thesis by (simp add: getInstance.simps(1))
next
  case True
  with assms show ?thesis
    by (simp add: getInstance.simps(1) Let_def get_prop_apply_lid)
qed

text \<open>A layer comes from one of the five builders, applied to the configuration as left.\<close>

lemma produced_layer_cases:
  assumes "getInstance env fuel p v = Some r" and "outcome r = Inr (PLayer l)"
  shows "(get_prop (conf_after r) ''type'' = JStr ''WMS'' \<and> l = createWmsLayer (conf_after r))
     \<or> (get_prop (conf_after r) ''type'' = JStr ''XYZ'' \<and> l = createXyzLayer (conf_after r))
     \<or> (get_prop (conf_after r) ''type'' = JStr ''OSM'' \<and> l = createOsmLayer (conf_after r))
     \<or> (get_prop (conf_after r) ''type'' = JStr ''VECTOR''
          \<and> createVectorLayer env (conf_after r) = Inr l)
     \<or> (get_prop (conf_after r) ''type'' = JStr ''VECTORTILE''
          \<and> createVectorTileLayer env (conf_after r) = Inr l)"
proof (cases "is_object v")
  case False
  with assms show ?thesis by (auto simp add: getInstance.simps(1))
next
  case True
  define c where "c = apply_lid env p v"
  have ca: "conf_after r = c"
    using getInstance_conf_after [OF assms(1)] True by (simp add: c_def)
  have run: "(if get_prop c ''type'' = JStr ''WMS'' then
            Some (Run c (Inr (PLayer (createWmsLayer c))) [])
          else if get_prop c ''type'' = JStr ''XYZ'' then
            Some (Run c (Inr (PLayer (createXyzLayer c))) [])
          else if get_prop c ''type'' = JStr ''OSM'' then
            Some (Run c (Inr (PLayer (createOsmLayer c))) [])
          else if get_prop c ''type'' = JStr ''VECTOR'' then
            Some (Run c (as_layer (createVectorLayer env c)) [])
          else if get_prop c ''type'' = JStr ''VECTORTILE'' then
            Some (Run c (as_layer (createVectorTileLayer env c)) [])
          else if get_prop c ''type'' = JStr ''LAYERCOLLECTION'' then
            createLayersFromCollection env fuel p c
          else
            Some (Run c (Inr PNull) [])) = Some r"
    using assms(1) True unfolding c_def by (simp add: getInstance.simps(1) Let_def)
  show ?thesis
    unfolding ca
    using run assms(2) collection_no_layer [of env fuel p c r l]
    by (auto simp add: as_layer_def split: if_splits sum.splits)
qed

lemma produced_layer_lid:
  assumes "getInstance env fuel p v = Some r" and "outcome r = Inr (PLayer l)"
  shows "layer_opt l ''lid'' = Some (Val (get_prop (conf_after r) ''lid''))"
  using produced_layer_cases [OF assms]
  by (auto simp add: builders split: option.splits)

section \<open>Properties of the collection loader\<close>

text \<open>\<^verbatim>\<open>Promise.all\<close> resolves exactly when every entry has resolved.\<close>

lemma resolutions_Some:
  "resolutions cs = Some qs \<longleftrightarrow>
     list_all2 (\<lambda>c q. \<exists>r. c = Some r \<and> outcome r = Inr q) cs qs"
proof (induction cs arbitrary: qs)
  case Nil
  then show ?case by auto
next
  case (Cons c cs)
  show ?case
  proof (cases c)
    case None
    then show ?thesis by (auto simp: list_all2_Cons1)
  next
    case (Some r)
    then show ?thesis
      using Cons.IH by (cases "outcome r") (auto simp: list_all2_Cons1)
  qed
qed

lemma resolved_no_rejections:
  "list_all2 (\<lambda>c q. \<exists>r. c = Some r \<and> outcome r = Inr q) cs qs \<Longrightarrow>
     immediate_rejections cs = [] \<and> deferred_rejections env p i cs = []"
  by (induction cs qs arbitrary: i rule: list_all2_induct) auto

lemma promise_all_Inr:
  "promise_all env p cs = Some (Inr q) \<longleftrightarrow> (\<exists>qs. resolutions cs = Some qs \<and> q = PArray qs)"
proof
  assume "promise_all env p cs = Some (Inr q)"
  then show "\<exists>qs. resolutions cs = Some qs \<and> q = PArray qs"
    by (auto simp add: promise_all_def split: list.splits option.splits)
next
  assume "\<exists>qs. resolutions cs = Some qs \<and> q = PArray qs"
  then obtain qs where qs: "resolutions cs = Some qs" and q: "q = PArray qs" by blast
  from qs resolved_no_rejections [of cs qs env p 0]
  have "immediate_rejections cs = []" "deferred_rejections env p 0 cs = []"
    by (simp_all add: resolutions_Some)
  with qs q show "promise_all env p cs = Some (Inr q)"
    by (simp add: promise_all_def)
qed

lemma getInstance_collection:
  assumes "get_prop (JObj ps) ''type'' = JStr ''LAYERCOLLECTION''"
  shows "getInstance env fuel p (JObj ps) =
     createLayersFromCollection env fuel p (apply_lid env p (JObj ps))"
  using assms by (simp add: getInstance.simps(1) get_prop_apply_lid Let_def)

text \<open>The calls a collection makes for the entries of its manifest.\<close>

lemma collection_run:
  assumes run: "createLayersFromCollection env (Suc fuel) p c = Some r"
    and fetch: "fetchJson env p (get_prop c ''url'') = Inr (JArr entries xs)"
  shows "promise_all env p (map snd (entries_after r)) = Some (outcome r)"
    and "length (entries_after r) = length entries"
    and "\<And>i. i < length entries \<Longrightarrow> entries_after r ! i =
           (if \<not> is_object (entries ! i)
            then (entries ! i, Some (Run (entries ! i) (Inl TypeError) []))
            else (apply_lid env (p @ [i])
                    (set_prop (entries ! i) ''lid'' (get_prop (entries ! i) ''name'')),
                  getInstance env fuel (p @ [i])
                    (set_prop (entries ! i) ''lid'' (get_prop (entries ! i) ''name''))))"
proof -
  define calls where "calls = map (\<lambda>i.
       let layerDef = entries ! i in
         if \<not> is_object layerDef
         then (layerDef, Some (Run layerDef (Inl TypeError) []))
         else
           let entry = set_prop layerDef ''lid'' (get_prop layerDef ''name'')
           in (apply_lid env (p @ [i]) entry, getInstance env fuel (p @ [i]) entry))
     [0 ..< length entries]"
  from run fetch obtain settled where s: "promise_all env p (map snd calls) = Some settled"
    and r: "r = Run c settled calls"
    by (auto simp add: calls_def Let_def split: option.splits)
  from r s show "promise_all env p (map snd (entries_after r)) = Some (outcome r)" by simp
  from r show "length (entries_after r) = length entries" by (simp add: calls_def)
  fix i assume "i < length entries"
  with r show "entries_after r ! i =
           (if \<not> is_object (entries ! i)
            then (entries ! i, Some (Run (entries ! i) (Inl TypeError) []))
            else (apply_lid env (p @ [i])
                    (set_prop (entries ! i) ''lid'' (get_prop (entries ! i) ''name'')),
                  getInstance env fuel (p @ [i])
                    (set_prop (entries ! i) ''lid'' (get_prop (entries ! i) ''name''))))"
    by (simp add: calls_def Let_def)
qed

text \<open>An entry as its call leaves it.\<close>

lemma entry_left:
  assumes "e = (if \<not> is_object d
            then (d, Some (Run d (Inl TypeError) []))
            else (apply_lid env q (set_prop d ''lid'' (get_prop d ''name'')),
                  getInstance env fuel q (set_prop d ''lid'' (get_prop d ''name''))))"
  shows "\<forall>k. k \<noteq> ''lid'' \<longrightarrow> get_prop (fst e) k = get_prop d k"
    and "is_object d \<longrightarrow> get_prop (fst e) ''lid'' =
           (if truthy (get_prop d ''name'') then get_prop d ''name''
            else JStr (randomId (randomText env q)))"
    and "\<not> is_object d \<longrightarrow> fst e = d"
    and "\<forall>r. snd e = Some r \<longrightarrow> conf_after r = fst e"
proof -
  show "\<forall>k. k \<noteq> ''lid'' \<longrightarrow> get_prop (fst e) k = get_prop d k"
    using assms by (simp add: get_prop_apply_lid get_prop_set_prop is_object_set_prop)
  show "is_object d \<longrightarrow> get_prop (fst e) ''lid'' =
           (if truthy (get_prop d ''name'') then get_prop d ''name''
            else JStr (randomId (randomText env q)))"
    using assms by (simp add: get_prop_apply_lid get_prop_set_prop is_object_set_prop)
  show "\<not> is_object d \<longrightarrow> fst e = d"
    using assms by simp
  show "\<forall>r. snd e = Some r \<longrightarrow> conf_after r = fst e"
  proof (intro allI impI)
    fix r assume r: "snd e = Some r"
    show "conf_after r = fst e"
    proof (cases "is_object d")
      case False
      with assms r show ?thesis by auto
    next
      case True
      with assms r have "getInstance env fuel q (set_prop d ''lid'' (get_prop d ''name'')) = Some r"
        by simp
      from getInstance_conf_after [OF this] True assms show ?thesis
        by (simp add: is_object_set_prop)
    qed
  qed
qed

text \<open>
  Two runs of the loader.  A manifest that lists itself and then \<^verbatim>\<open>null\<close>: the first entry
  never settles, the second rejects while the manifest is mapped, and the collection
  rejects with its TypeError.
\<close>

lemma rejects_beside_unsettled_entry:
  "map_option outcome
     (getInstance
        ((sample_env ''0.4fzyo82mvyr'')
           \<lparr> fetchJson := (\<lambda>p url.
                Inr (JArr [JObj [(''type'', JStr ''LAYERCOLLECTION''), (''url'', JStr ''self.json'')],
                           JNull] [])) \<rparr>)
        (Suc (Suc 0)) []
        (JObj [(''type'', JStr ''LAYERCOLLECTION''), (''url'', JStr ''self.json'')]))
   = Some (Inl TypeError)"
  by (simp add: run_simps)

text \<open>
  A manifest of two collections, the first answering with a string where a manifest is
  expected (a TypeError once it has arrived), the second failing to be fetched: the
  collection rejects with the reason of whichever is settled first.
\<close>

lemma first_rejection_in_time:
  "map_option outcome
     (getInstance
        ((sample_env ''0.4fzyo82mvyr'')
           \<lparr> fetchJson := (\<lambda>p url.
                if url = JStr ''all.json''
                then Inr (JArr [JObj [(''type'', JStr ''LAYERCOLLECTION''), (''url'', JStr ''text.json'')],
                                JObj [(''type'', JStr ''LAYERCOLLECTION''), (''url'', JStr ''gone.json'')]] [])
                else if url = JStr ''text.json'' then Inr (JStr ''no manifest'')
                else Inl FetchError),
             settledAt := (\<lambda>p. if p = [0] then t0 else t1) \<rparr>)
        (Suc (Suc 0)) []
        (JObj [(''type'', JStr ''LAYERCOLLECTION''), (''url'', JStr ''all.json'')]))
   = Some (Inl (if t1 < t0 then FetchError else TypeError))"
  by (simp add: run_simps)

text \<open>
  A larger bound on the nesting depth does not change a call that resolved within a
  smaller one.
\<close>

lemma collection_resolved_step:
  assumes ih: "\<And>q v r' q'. getInstance env fuel q v = Some r' \<Longrightarrow> outcome r' = Inr q' \<Longrightarrow>
                 getInstance env (Suc fuel) q v = Some r'"
    and run: "createLayersFromCollection env (Suc fuel) p c = Some r"
    and res: "outcome r = Inr q"
  shows "createLayersFromCollection env (Suc (Suc fuel)) p c = Some r"
proof (cases "fetchJson env p (get_prop c ''url'')")
  case (Inl e)
  with run show ?thesis by simp
next
  case (Inr response)
  show ?thesis
  proof (cases "\<exists>entries xs. response = JArr entries xs")
    case False
    with run Inr show ?thesis by (cases response) simp_all
  next
    case True
    then obtain entries xs where resp: "response = JArr entries xs" by blast
    let ?f = "\<lambda>n i. let layerDef = entries ! i in
         if \<not> is_object layerDef
         then (layerDef, Some (Run layerDef (Inl TypeError) []))
         else
           let entry = set_prop layerDef ''lid'' (get_prop layerDef ''name'')
           in (apply_lid env (p @ [i]) entry, getInstance env n (p @ [i]) entry)"
    define calls where "calls = map (?f fuel) [0 ..< length entries]"
    from run Inr resp obtain settled
      where s: "promise_all env p (map snd calls) = Some settled"
        and r: "r = Run c settled calls"
      by (auto simp add: calls_def Let_def split: option.splits)
    from r res s obtain qs where qs: "resolutions (map snd calls) = Some qs"
      by (auto simp add: promise_all_Inr)
    then have all2: "list_all2 (\<lambda>c q. \<exists>r. c = Some r \<and> outcome r = Inr q) (map snd calls) qs"
      by (simp add: resolutions_Some)
    have same: "?f (Suc fuel) i = ?f fuel i" if i: "i < length entries" for i
    proof (cases "is_object (entries ! i)")
      case False
      then show ?thesis by (simp add: Let_def)
    next
      case True
      have lc: "length calls = length entries" by (simp add: calls_def)
      from all2 have "\<forall>j<length calls. \<exists>r. snd (calls ! j) = Some r \<and> outcome r = Inr (qs ! j)"
        by (simp add: list_all2_conv_all_nth)
      with i lc obtain r' where r': "snd (calls ! i) = Some r'" "outcome r' = Inr (qs ! i)"
        by auto
      have "calls ! i = ?f fuel i" using i by (simp add: calls_def Let_def)
      with r'(1) True have "getInstance env fuel (p @ [i])
          (set_prop (entries ! i) ''lid'' (get_prop (entries ! i) ''name'')) = Some r'"
        by (simp add: Let_def)
      from ih [OF this \<open>outcome r' = Inr (qs ! i)\<close>] this True show ?thesis
        by (simp add: Let_def)
    qed
    have "map (?f (Suc fuel)) [0 ..< length entries] = calls"
      unfolding calls_def by (rule map_cong) (simp_all add: same)
    with Inr resp s r show ?thesis by (simp add: Let_def)
  qed
qed

lemma getInstance_resolved_step:
  assumes "\<And>c r' q'. createLayersFromCollection env fuel p c = Some r' \<Longrightarrow> outcome r' = Inr q' \<Longrightarrow>
             createLayersFromCollection env (Suc fuel) p c = Some r'"
    and "getInstance env fuel p v = Some r" and "outcome r = Inr q"
  shows "getInstance env (Suc fuel) p v = Some r"
  using assms(2,3) assms(1)
  by (auto simp add: getInstance.simps(1) Let_def split: if_splits)

lemma resolved_fuel_Suc:
  "(\<forall>p v r q. getInstance env fuel p v = Some r \<and> outcome r = Inr q \<longrightarrow>
       getInstance env (Suc fuel) p v = Some r)
   \<and> (\<forall>p c r q. createLayersFromCollection env fuel p c = Some r \<and> outcome r = Inr q \<longrightarrow>
         createLayersFromCollection env (Suc fuel) p c = Some r)"
proof (induction fuel)
  case 0
  have "\<forall>p c r q. createLayersFromCollection env 0 p c = Some r \<and> outcome r = Inr q \<longrightarrow>
         createLayersFromCollection env (Suc 0) p c = Some r" by simp
  then show ?case using getInstance_resolved_step [of env 0] by blast
next
  case (Suc fuel)
  then have c: "\<forall>p c r q. createLayersFromCollection env (Suc fuel) p c = Some r
         \<and> outcome r = Inr q \<longrightarrow>
         createLayersFromCollection env (Suc (Suc fuel)) p c = Some r"
    using collection_resolved_step [of env fuel] by blast
  then show ?case using getInstance_resolved_step [of env "Suc fuel"] by blast
qed

lemma getInstance_fuel_mono:
  assumes "getInstance env fuel p v = Some r" and "outcome r = Inr q" and "fuel \<le> fuel'"
  shows "getInstance env fuel' p v = Some r"
  using assms(3) assms(1,2)
proof (induction rule: dec_induct)
  case base
  then show ?case by simp
next
  case (step n)
  then show ?case using resolved_fuel_Suc [of env n] by blast
qed

section \<open>Layer identifiers\<close>




section \<open>Unknown layer types\<close>

text \<open>
  Claim C2.  For every configuration object whose \<^verbatim>\<open>type\<close> is none of WMS, XYZ, OSM, VECTOR,
  VECTORTILE and LAYERCOLLECTION (an absent \<^verbatim>\<open>type\<close> reads as \<^verbatim>\<open>undefined\<close> and is one of
  them), \<^verbatim>\<open>getInstance\<close> resolves with \<^verbatim>\<open>null\<close>: it does not reject, and it does so for every
  bound on the nesting depth.
\<close>

theorem getInstance_unknown_type_null:
  assumes "get_prop (JObj ps) ''type'' \<notin>
      {JStr ''WMS'', JStr ''XYZ'', JStr ''OSM'', JStr ''VECTOR'', JStr ''VECTORTILE'',
       JStr ''LAYERCOLLECTION''}"
  shows "map_option outcome (getInstance env fuel p (JObj ps)) = Some (Inr PNull)"
  using assms by (simp add: getInstance.simps(1) apply_lid_def get_prop_put Let_def)

theorem getInstance_unknown_type_null_witness:
  "map_option outcome (getInstance (sample_env ''0.4fzyo82mvyr'') 0 []
      (JObj [(''type'', JStr ''UNKNOWN'')])) = Some (Inr PNull)
   \<and> map_option outcome (getInstance (sample_env ''0.4fzyo82mvyr'') 0 []
      (JObj [(''name'', JStr ''n'')])) = Some (Inr PNull)"
  using getInstance_unknown_type_null
      [of "[(''type'', JStr ''UNKNOWN'')]" "sample_env ''0.4fzyo82mvyr''" 0 "[]"]
    getInstance_unknown_type_null
      [of "[(''name'', JStr ''n'')]" "sample_env ''0.4fzyo82mvyr''" 0 "[]"]
  by (simp add: get_prop_def)

section \<open>What a call changes\<close>

text \<open>
  Claim C3, as amended.  The claim says that \<^verbatim>\<open>getInstance\<close> leaves every field of its
  configuration unchanged, \<^verbatim>\<open>lid\<close> included, and does not modify the entries of a manifest.
  The function stores the identifier it generates in \<^verbatim>\<open>lConf.lid\<close>, and the collection loader
  stores each entry's \<^verbatim>\<open>name\<close> in the entry's \<^verbatim>\<open>lid\<close>.  What holds: a call for anything but a
  collection settles, and a call that settles has changed no field of its configuration
  other than \<^verbatim>\<open>lid\<close>; a truthy \<^verbatim>\<open>lid\<close> is kept and the object is left as it was, a falsy or
  absent one is replaced by the generated identifier.  Each entry of a fetched manifest,
  whether or not its own call settles, keeps every field other than \<^verbatim>\<open>lid\<close>; the \<^verbatim>\<open>lid\<close> of
  an entry that is an object is overwritten with its \<^verbatim>\<open>name\<close>, whatever it was before, and
  is then, as for any configuration, replaced by a generated identifier when the name is
  falsy; an entry that is not an object is left as it was.
\<close>

theorem config_changes_only_lid:
  "(get_prop (JObj ps) ''type'' \<noteq> JStr ''LAYERCOLLECTION'' \<longrightarrow>
      (\<exists>r. getInstance env fuel p (JObj ps) = Some r))
   \<and> (\<forall>r. getInstance env fuel p (JObj ps) = Some r \<longrightarrow>
     (\<forall>k. k \<noteq> ''lid'' \<longrightarrow> get_prop (conf_after r) k = get_prop (JObj ps) k)
     \<and> (truthy (get_prop (JObj ps) ''lid'') \<longrightarrow> conf_after r = JObj ps)
     \<and> (\<not> truthy (get_prop (JObj ps) ''lid'') \<longrightarrow>
          get_prop (conf_after r) ''lid'' = JStr (randomId (randomText env p)))
     \<and> (\<forall>entries xs.
          get_prop (JObj ps) ''type'' = JStr ''LAYERCOLLECTION''
          \<and> fetchJson env p (get_prop (JObj ps) ''url'') = Inr (JArr entries xs) \<longrightarrow>
          length (entries_after r) = length entries
          \<and> (\<forall>i<length entries.
               (\<forall>k. k \<noteq> ''lid'' \<longrightarrow>
                   get_prop (fst (entries_after r ! i)) k = get_prop (entries ! i) k)
               \<and> (is_object (entries ! i) \<longrightarrow>
                   get_prop (fst (entries_after r ! i)) ''lid'' =
                   (if truthy (get_prop (entries ! i) ''name'')
                    then get_prop (entries ! i) ''name''
                    else JStr (randomId (randomText env (p @ [i])))))
               \<and> (\<not> is_object (entries ! i) \<longrightarrow> fst (entries_after r ! i) = entries ! i)
               \<and> (\<forall>ri. snd (entries_after r ! i) = Some ri \<longrightarrow>
                   conf_after ri = fst (entries_after r ! i)))))"
proof (rule conjI)
  show "get_prop (JObj ps) ''type'' \<noteq> JStr ''LAYERCOLLECTION'' \<longrightarrow>
      (\<exists>r. getInstance env fuel p (JObj ps) = Some r)"
    by (intro impI) (rule getInstance_returns)
next
  show "\<forall>r. getInstance env fuel p (JObj ps) = Some r \<longrightarrow>
     (\<forall>k. k \<noteq> ''lid'' \<longrightarrow> get_prop (conf_after r) k = get_prop (JObj ps) k)
     \<and> (truthy (get_prop (JObj ps) ''lid'') \<longrightarrow> conf_after r = JObj ps)
     \<and> (\<not> truthy (get_prop (JObj ps) ''lid'') \<longrightarrow>
          get_prop (conf_after r) ''lid'' = JStr (randomId (randomText env p)))
     \<and> (\<forall>entries xs.
          get_prop (JObj ps) ''type'' = JStr ''LAYERCOLLECTION''
          \<and> fetchJson env p (get_prop (JObj ps) ''url'') = Inr (JArr entries xs) \<longrightarrow>
          length (entries_after r) = length entries
          \<and> (\<forall>i<length entries.
               (\<forall>k. k \<noteq> ''lid'' \<longrightarrow>
                   get_prop (fst (entries_after r ! i)) k = get_prop (entries ! i) k)
               \<and> (is_object (entries ! i) \<longrightarrow>
                   get_prop (fst (entries_after r ! i)) ''lid'' =
                   (if truthy (get_prop (entries ! i) ''name'')
                    then get_prop (entries ! i) ''name''
                    else JStr (randomId (randomText env (p @ [i])))))
               \<and> (\<not> is_object (entries ! i) \<longrightarrow> fst (entries_after r ! i) = entries ! i)
               \<and> (\<forall>ri. snd (entries_after r ! i) = Some ri \<longrightarrow>
                   conf_after ri = fst (entries_after r ! i))))"
  proof (intro allI impI)
    fix r assume run: "getInstance env fuel p (JObj ps) = Some r"
    have ca: "conf_after r = apply_lid env p (JObj ps)"
      using getInstance_conf_after [OF run] by simp
    have t1: "\<forall>k. k \<noteq> ''lid'' \<longrightarrow> get_prop (conf_after r) k = get_prop (JObj ps) k"
      unfolding ca by (simp add: get_prop_apply_lid)
    have t2: "truthy (get_prop (JObj ps) ''lid'') \<longrightarrow> conf_after r = JObj ps"
      unfolding ca by (simp add: apply_lid_truthy)
    have t3: "\<not> truthy (get_prop (JObj ps) ''lid'') \<longrightarrow>
          get_prop (conf_after r) ''lid'' = JStr (randomId (randomText env p))"
      unfolding ca by (simp add: get_prop_apply_lid)
    have t4: "\<forall>entries xs.
          get_prop (JObj ps) ''type'' = JStr ''LAYERCOLLECTION''
          \<and> fetchJson env p (get_prop (JObj ps) ''url'') = Inr (JArr entries xs) \<longrightarrow>
          length (entries_after r) = length entries
          \<and> (\<forall>i<length entries.
               (\<forall>k. k \<noteq> ''lid'' \<longrightarrow>
                   get_prop (fst (entries_after r ! i)) k = get_prop (entries ! i) k)
               \<and> (is_object (entries ! i) \<longrightarrow>
                   get_prop (fst (entries_after r ! i)) ''lid'' =
                   (if truthy (get_prop (entries ! i) ''name'')
                    then get_prop (entries ! i) ''name''
                    else JStr (randomId (randomText env (p @ [i])))))
               \<and> (\<not> is_object (entries ! i) \<longrightarrow> fst (entries_after r ! i) = entries ! i)
               \<and> (\<forall>ri. snd (entries_after r ! i) = Some ri \<longrightarrow>
                   conf_after ri = fst (entries_after r ! i)))"
    proof (intro allI impI, elim conjE)
      fix entries xs
      assume ty: "get_prop (JObj ps) ''type'' = JStr ''LAYERCOLLECTION''"
        and fetch: "fetchJson env p (get_prop (JObj ps) ''url'') = Inr (JArr entries xs)"
      define c where "c = apply_lid env p (JObj ps)"
      have url: "get_prop c ''url'' = get_prop (JObj ps) ''url''"
        by (simp add: c_def get_prop_apply_lid)
      have cr: "createLayersFromCollection env fuel p c = Some r"
        using run getInstance_collection [OF ty, of env fuel p] by (simp add: c_def)
      then obtain n where n: "fuel = Suc n" by (cases fuel) auto
      note cr' = cr [unfolded n]
      have f': "fetchJson env p (get_prop c ''url'') = Inr (JArr entries xs)"
        using fetch url by simp
      note len = collection_run(2) [OF cr' f']
      note ent = collection_run(3) [OF cr' f']
      have each: "\<forall>i<length entries.
               (\<forall>k. k \<noteq> ''lid'' \<longrightarrow>
                   get_prop (fst (entries_after r ! i)) k = get_prop (entries ! i) k)
               \<and> (is_object (entries ! i) \<longrightarrow>
                   get_prop (fst (entries_after r ! i)) ''lid'' =
                   (if truthy (get_prop (entries ! i) ''name'')
                    then get_prop (entries ! i) ''name''
                    else JStr (randomId (randomText env (p @ [i])))))
               \<and> (\<not> is_object (entries ! i) \<longrightarrow> fst (entries_after r ! i) = entries ! i)
               \<and> (\<forall>ri. snd (entries_after r ! i) = Some ri \<longrightarrow>
                   conf_after ri = fst (entries_after r ! i))"
      proof (intro allI impI)
        fix i assume i: "i < length entries"
        note el = entry_left [OF ent [OF i]]
        from el(1) el(2) el(3) el(4)
        show "(\<forall>k. k \<noteq> ''lid'' \<longrightarrow>
                   get_prop (fst (entries_after r ! i)) k = get_prop (entries ! i) k)
               \<and> (is_object (entries ! i) \<longrightarrow>
                   get_prop (fst (entries_after r ! i)) ''lid'' =
                   (if truthy (get_prop (entries ! i) ''name'')
                    then get_prop (entries ! i) ''name''
                    else JStr (randomId (randomText env (p @ [i])))))
               \<and> (\<not> is_object (entries ! i) \<longrightarrow> fst (entries_after r ! i) = entries ! i)
               \<and> (\<forall>ri. snd (entries_after r ! i) = Some ri \<longrightarrow>
                   conf_after ri = fst (entries_after r ! i))"
          by (intro conjI)
      qed
      from len each show "length (entries_after r) = length entries
          \<and> (\<forall>i<length entries.
               (\<forall>k. k \<noteq> ''lid'' \<longrightarrow>
                   get_prop (fst (entries_after r ! i)) k = get_prop (entries ! i) k)
               \<and> (is_object (entries ! i) \<longrightarrow>
                   get_prop (fst (entries_after r ! i)) ''lid'' =
                   (if truthy (get_prop (entries ! i) ''name'')
                    then get_prop (entries ! i) ''name''
                    else JStr (randomId (randomText env (p @ [i])))))
               \<and> (\<not> is_object (entries ! i) \<longrightarrow> fst (entries_after r ! i) = entries ! i)
               \<and> (\<forall>ri. snd (entries_after r ! i) = Some ri \<longrightarrow>
                   conf_after ri = fst (entries_after r ! i)))"
        by (rule conjI)
    qed
    from t1 t2 t3 t4
    show "(\<forall>k. k \<noteq> ''lid'' \<longrightarrow> get_prop (conf_after r) k = get_prop (JObj ps) k)
     \<and> (truthy (get_prop (JObj ps) ''lid'') \<longrightarrow> conf_after r = JObj ps)
     \<and> (\<not> truthy (get_prop (JObj ps) ''lid'') \<longrightarrow>
          get_prop (conf_after r) ''lid'' = JStr (randomId (randomText env p)))
     \<and> (\<forall>entries xs.
          get_prop (JObj ps) ''type'' = JStr ''LAYERCOLLECTION''
          \<and> fetchJson env p (get_prop (JObj ps) ''url'') = Inr (JArr entries xs) \<longrightarrow>
          length (entries_after r) = length entries
          \<and> (\<forall>i<length entries.
               (\<forall>k. k \<noteq> ''lid'' \<longrightarrow>
                   get_prop (fst (entries_after r ! i)) k = get_prop (entries ! i) k)
               \<and> (is_object (entries ! i) \<longrightarrow>
                   get_prop (fst (entries_after r ! i)) ''lid'' =
                   (if truthy (get_prop (entries ! i) ''name'')
                    then get_prop (entries ! i) ''name''
                    else JStr (randomId (randomText env (p @ [i])))))
               \<and> (\<not> is_object (entries ! i) \<longrightarrow> fst (entries_after r ! i) = entries ! i)
               \<and> (\<forall>ri. snd (entries_after r ! i) = Some ri \<longrightarrow>
                   conf_after ri = fst (entries_after r ! i))))"
      by (intro conjI)
  qed
qed

theorem config_changes_only_lid_witness:
  "(\<exists>r. getInstance (sample_env ''0.4fzyo82mvyr'') 0 []
          (JObj [(''type'', JStr ''OSM''), (''name'', JStr ''n'')]) = Some r
       \<and> get_prop (conf_after r) ''type'' = JStr ''OSM''
       \<and> get_prop (conf_after r) ''name'' = JStr ''n''
       \<and> get_prop (conf_after r) ''lid'' = JStr ''4fzyo'')
   \<and> (\<exists>r. getInstance (sample_env ''0.4fzyo82mvyr'') 0 []
          (JObj [(''type'', JStr ''OSM''), (''lid'', JStr ''base'')]) = Some r
       \<and> conf_after r = JObj [(''type'', JStr ''OSM''), (''lid'', JStr ''base'')])
   \<and> (\<exists>r. getInstance (sample_env ''0.4fzyo82mvyr'') (Suc 0) []
          (JObj [(''type'', JStr ''LAYERCOLLECTION''), (''url'', JStr ''layers.json'')]) = Some r
       \<and> length (entries_after r) = 2
       \<and> get_prop (fst (entries_after r ! 1)) ''type'' = JStr ''OSM''
       \<and> get_prop (fst (entries_after r ! 1)) ''lid'' = JStr ''b'')
   \<and> (\<exists>r. getInstance (sample_env ''0.4fzyo82mvyr'') (Suc 0) []
          (JObj [(''type'', JStr ''LAYERCOLLECTION''), (''url'', JStr ''unnamed.json'')]) = Some r
       \<and> length (entries_after r) = 1
       \<and> get_prop (fst (entries_after r ! 0)) ''type'' = JStr ''OSM''
       \<and> get_prop (fst (entries_after r ! 0)) ''lid'' = JStr ''4fzyo'')"
proof (intro conjI)
  let ?E = "sample_env ''0.4fzyo82mvyr''"
  obtain r where r: "getInstance ?E 0 []
          (JObj [(''type'', JStr ''OSM''), (''name'', JStr ''n'')]) = Some r"
    by (simp add: run_simps)
  from config_changes_only_lid [where env = ?E and fuel = 0 and p = "[]"
      and ps = "[(''type'', JStr ''OSM''), (''name'', JStr ''n'')]"] r
  show "\<exists>r. getInstance ?E 0 []
          (JObj [(''type'', JStr ''OSM''), (''name'', JStr ''n'')]) = Some r
       \<and> get_prop (conf_after r) ''type'' = JStr ''OSM''
       \<and> get_prop (conf_after r) ''name'' = JStr ''n''
       \<and> get_prop (conf_after r) ''lid'' = JStr ''4fzyo''"
    by (simp add: get_prop_def sample_env_def randomId_def substr_def)
next
  let ?E = "sample_env ''0.4fzyo82mvyr''"
  obtain r where r: "getInstance ?E 0 []
          (JObj [(''type'', JStr ''OSM''), (''lid'', JStr ''base'')]) = Some r"
    by (simp add: run_simps)
  from config_changes_only_lid [where env = ?E and fuel = 0 and p = "[]"
      and ps = "[(''type'', JStr ''OSM''), (''lid'', JStr ''base'')]"] r
  show "\<exists>r. getInstance ?E 0 []
          (JObj [(''type'', JStr ''OSM''), (''lid'', JStr ''base'')]) = Some r
       \<and> conf_after r = JObj [(''type'', JStr ''OSM''), (''lid'', JStr ''base'')]"
    by (simp add: get_prop_def)
next
  let ?E = "sample_env ''0.4fzyo82mvyr''"
  let ?ps = "[(''type'', JStr ''LAYERCOLLECTION''), (''url'', JStr ''layers.json'')]"
  let ?c = "JObj ?ps"
  obtain r where r: "getInstance ?E (Suc 0) [] ?c = Some r"
    by (simp add: run_simps)
  have ty: "get_prop ?c ''type'' = JStr ''LAYERCOLLECTION''"
    by (simp add: get_prop_def)
  have fetch: "fetchJson ?E [] (get_prop ?c ''url'')
     = Inr (JArr [JObj [(''name'', JStr ''a''), (''type'', JStr ''OSM'')],
                  JObj [(''name'', JStr ''b''), (''type'', JStr ''OSM'')]] [])"
    by (simp add: get_prop_def sample_env_def)
  from config_changes_only_lid [where env = ?E and fuel = "Suc 0" and p = "[]" and ps = ?ps]
    r ty fetch
  have "length (entries_after r) = 2
       \<and> get_prop (fst (entries_after r ! 1)) ''type'' = JStr ''OSM''
       \<and> get_prop (fst (entries_after r ! 1)) ''lid'' = JStr ''b''"
    by (simp add: get_prop_def)
  with r show "\<exists>r. getInstance ?E (Suc 0) [] ?c = Some r
       \<and> length (entries_after r) = 2
       \<and> get_prop (fst (entries_after r ! 1)) ''type'' = JStr ''OSM''
       \<and> get_prop (fst (entries_after r ! 1)) ''lid'' = JStr ''b''"
    by blast
next
  let ?E = "sample_env ''0.4fzyo82mvyr''"
  let ?ps = "[(''type'', JStr ''LAYERCOLLECTION''), (''url'', JStr ''unnamed.json'')]"
  let ?c = "JObj ?ps"
  obtain r where r: "getInstance ?E (Suc 0) [] ?c = Some r"
    by (simp add: run_simps)
  have ty: "get_prop ?c ''type'' = JStr ''LAYERCOLLECTION''"
    by (simp add: get_prop_def)
  have fetch: "fetchJson ?E [] (get_prop ?c ''url'')
     = Inr (JArr [JObj [(''lid'', JStr ''old''), (''type'', JStr ''OSM'')]] [])"
    by (simp add: get_prop_def sample_env_def)
  from config_changes_only_lid [where env = ?E and fuel = "Suc 0" and p = "[]" and ps = ?ps]
    r ty fetch
  have "length (entries_after r) = 1
       \<and> get_prop (fst (entries_after r ! 0)) ''type'' = JStr ''OSM''
       \<and> get_prop (fst (entries_after r ! 0)) ''lid'' = JStr ''4fzyo''"
    by (simp add: get_prop_def sample_env_def randomId_def substr_def)
  with r show "\<exists>r. getInstance ?E (Suc 0) [] ?c = Some r
       \<and> length (entries_after r) = 1
       \<and> get_prop (fst (entries_after r ! 0)) ''type'' = JStr ''OSM''
       \<and> get_prop (fst (entries_after r ! 0)) ''lid'' = JStr ''4fzyo''"
    by blast
qed

text \<open>
  The claim as stated fails for a basemap configuration without \<^verbatim>\<open>lid\<close>, which leaves the
  call with a \<^verbatim>\<open>lid\<close> field, and for the two entries of the sample manifest, which leave it
  with the \<^verbatim>\<open>lid\<close> fields \<^verbatim>\<open>a\<close> and \<^verbatim>\<open>b\<close>.
\<close>

theorem config_changes_only_lid_counterexample:
  "map_option conf_after (getInstance (sample_env ''0.4fzyo82mvyr'') 0 []
       (JObj [(''type'', JStr ''OSM'')]))
     = Some (JObj [(''type'', JStr ''OSM''), (''lid'', JStr ''4fzyo'')])
   \<and> fetchJson (sample_env ''0.4fzyo82mvyr'') [] (JStr ''layers.json'')
     = Inr (JArr [JObj [(''name'', JStr ''a''), (''type'', JStr ''OSM'')],
                  JObj [(''name'', JStr ''b''), (''type'', JStr ''OSM'')]] [])
   \<and> map_option (map fst \<circ> entries_after)
       (getInstance (sample_env ''0.4fzyo82mvyr'') (Suc 0) []
         (JObj [(''type'', JStr ''LAYERCOLLECTION''), (''url'', JStr ''layers.json''),
                (''lid'', JStr ''all'')]))
     = Some [JObj [(''name'', JStr ''a''), (''type'', JStr ''OSM''), (''lid'', JStr ''a'')],
             JObj [(''name'', JStr ''b''), (''type'', JStr ''OSM''), (''lid'', JStr ''b'')]]"
  by (simp add: run_simps)

section \<open>Layer collections\<close>

text \<open>
  Claim C4.  For a configuration of type LAYERCOLLECTION whose manifest is fetched as an
  array, the call resolves with an array exactly when every entry resolves (the array is
  returned only after every entry has resolved).  The array then has the length of the
  manifest, and its \<open>i\<close>-th element is what \<^verbatim>\<open>getInstance\<close> resolves with on the \<open>i\<close>-th entry
  after the entry's \<^verbatim>\<open>lid\<close> is set to its \<^verbatim>\<open>name\<close>, in the order of the manifest; a layer among
  them carries the entry's name as its \<^verbatim>\<open>lid\<close> when the name is truthy.  For the manifest
  \<^verbatim>\<open>[{name:"a",type:"OSM"},{name:"b",type:"OSM"}]\<close> the result is two layers with the
  identifiers \<^verbatim>\<open>a\<close> and \<^verbatim>\<open>b\<close>, in that order (the witness).
\<close>

theorem collection_in_manifest_order:
  assumes ty: "get_prop (JObj ps) ''type'' = JStr ''LAYERCOLLECTION''"
    and fetch: "fetchJson env p (get_prop (JObj ps) ''url'') = Inr (JArr entries xs)"
  shows "((\<forall>i<length entries. is_object (entries ! i) \<and>
            (\<exists>r q. getInstance env fuel (p @ [i])
                 (set_prop (entries ! i) ''lid'' (get_prop (entries ! i) ''name'')) = Some r
               \<and> outcome r = Inr q))
       \<longrightarrow> (\<exists>c qs rs. getInstance env (Suc fuel) p (JObj ps) = Some (Run c (Inr (PArray qs)) rs)
             \<and> length qs = length entries
             \<and> (\<forall>i<length entries.
                  map_option outcome (getInstance env fuel (p @ [i])
                    (set_prop (entries ! i) ''lid'' (get_prop (entries ! i) ''name'')))
                  = Some (Inr (qs ! i))
                  \<and> (\<forall>l. qs ! i = PLayer l \<and> truthy (get_prop (entries ! i) ''name'') \<longrightarrow>
                        layer_opt l ''lid'' = Some (Val (get_prop (entries ! i) ''name''))))))
     \<and> (\<forall>r q. getInstance env (Suc fuel) p (JObj ps) = Some r \<and> outcome r = Inr q \<longrightarrow>
           (\<forall>i<length entries. is_object (entries ! i) \<and>
              (\<exists>r' q'. getInstance env fuel (p @ [i])
                 (set_prop (entries ! i) ''lid'' (get_prop (entries ! i) ''name'')) = Some r'
               \<and> outcome r' = Inr q')))"
proof -
  define c where "c = apply_lid env p (JObj ps)"
  have gi: "getInstance env (Suc fuel) p (JObj ps) = createLayersFromCollection env (Suc fuel) p c"
    using getInstance_collection [OF ty, of env "Suc fuel" p] by (simp add: c_def)
  have f': "fetchJson env p (get_prop c ''url'') = Inr (JArr entries xs)"
    using fetch by (simp add: c_def get_prop_apply_lid)
  let ?e = "\<lambda>i. set_prop (entries ! i) ''lid'' (get_prop (entries ! i) ''name'')"
  have fwd: "\<exists>c qs rs. getInstance env (Suc fuel) p (JObj ps) = Some (Run c (Inr (PArray qs)) rs)
             \<and> length qs = length entries
             \<and> (\<forall>i<length entries.
                  map_option outcome (getInstance env fuel (p @ [i]) (?e i)) = Some (Inr (qs ! i))
                  \<and> (\<forall>l. qs ! i = PLayer l \<and> truthy (get_prop (entries ! i) ''name'') \<longrightarrow>
                        layer_opt l ''lid'' = Some (Val (get_prop (entries ! i) ''name''))))"
    if res: "\<forall>i<length entries. is_object (entries ! i) \<and>
            (\<exists>r q. getInstance env fuel (p @ [i]) (?e i) = Some r \<and> outcome r = Inr q)"
  proof -
    define calls where "calls = map (\<lambda>i.
         let layerDef = entries ! i in
           if \<not> is_object layerDef
           then (layerDef, Some (Run layerDef (Inl TypeError) []))
           else
             let entry = set_prop layerDef ''lid'' (get_prop layerDef ''name'')
             in (apply_lid env (p @ [i]) entry, getInstance env fuel (p @ [i]) entry))
       [0 ..< length entries]"
    have lc: "length calls = length entries" by (simp add: calls_def)
    have call_i: "snd (calls ! i) = getInstance env fuel (p @ [i]) (?e i)"
      if "i < length entries" for i
      using that res by (simp add: calls_def Let_def)
    from res have "\<forall>i. \<exists>q. i < length entries \<longrightarrow>
        (\<exists>r. getInstance env fuel (p @ [i]) (?e i) = Some r \<and> outcome r = Inr q)"
      by blast
    then obtain Q where Q: "\<And>i. i < length entries \<Longrightarrow>
        \<exists>r. getInstance env fuel (p @ [i]) (?e i) = Some r \<and> outcome r = Inr (Q i)"
      by metis
    define qs where "qs = map Q [0 ..< length entries]"
    have lq: "length qs = length entries" by (simp add: qs_def)
    have q_i: "\<exists>r. getInstance env fuel (p @ [i]) (?e i) = Some r \<and> outcome r = Inr (qs ! i)"
      if "i < length entries" for i
      using Q [OF that] that by (simp add: qs_def)
    have "list_all2 (\<lambda>c q. \<exists>r. c = Some r \<and> outcome r = Inr q) (map snd calls) qs"
      unfolding list_all2_conv_all_nth
    proof (intro conjI allI impI)
      show "length (map snd calls) = length qs" using lc lq by simp
    next
      fix i assume "i < length (map snd calls)"
      then have i: "i < length entries" using lc by simp
      with q_i [OF i] call_i [OF i] lc
      show "\<exists>r. map snd calls ! i = Some r \<and> outcome r = Inr (qs ! i)" by simp
    qed
    then have "resolutions (map snd calls) = Some qs"
      by (simp add: resolutions_Some)
    then have "promise_all env p (map snd calls) = Some (Inr (PArray qs))"
      by (simp add: promise_all_Inr)
    then have "createLayersFromCollection env (Suc fuel) p c = Some (Run c (Inr (PArray qs)) calls)"
      using f' by (simp add: calls_def Let_def)
    with gi have run: "getInstance env (Suc fuel) p (JObj ps) = Some (Run c (Inr (PArray qs)) calls)"
      by simp
    have each: "\<forall>i<length entries.
                  map_option outcome (getInstance env fuel (p @ [i]) (?e i)) = Some (Inr (qs ! i))
                  \<and> (\<forall>l. qs ! i = PLayer l \<and> truthy (get_prop (entries ! i) ''name'') \<longrightarrow>
                        layer_opt l ''lid'' = Some (Val (get_prop (entries ! i) ''name'')))"
    proof (intro allI impI conjI)
      fix i assume i: "i < length entries"
      from q_i [OF i]
      show "map_option outcome (getInstance env fuel (p @ [i]) (?e i)) = Some (Inr (qs ! i))"
        by auto
    next
      fix i l assume i: "i < length entries"
        and l: "qs ! i = PLayer l \<and> truthy (get_prop (entries ! i) ''name'')"
      from q_i [OF i] obtain r where r: "getInstance env fuel (p @ [i]) (?e i) = Some r"
        and o: "outcome r = Inr (qs ! i)" by blast
      have ob: "is_object (entries ! i)" using res i by blast
      from o l have "outcome r = Inr (PLayer l)" by simp
      from produced_layer_lid [OF r this]
      have "layer_opt l ''lid'' = Some (Val (get_prop (conf_after r) ''lid''))" .
      moreover have "conf_after r = ?e i"
        using getInstance_conf_after [OF r] ob l
        by (simp add: get_prop_set_prop is_object_set_prop apply_lid_truthy)
      ultimately show "layer_opt l ''lid'' = Some (Val (get_prop (entries ! i) ''name''))"
        using ob by (simp add: get_prop_set_prop)
    qed
    from run lq each show ?thesis by blast
  qed
  have bwd: "is_object (entries ! i) \<and>
              (\<exists>r' q'. getInstance env fuel (p @ [i]) (?e i) = Some r' \<and> outcome r' = Inr q')"
    if r: "getInstance env (Suc fuel) p (JObj ps) = Some r" and q: "outcome r = Inr q"
      and i: "i < length entries" for r q i
  proof -
    have r': "createLayersFromCollection env (Suc fuel) p c = Some r" using r gi by simp
    note out = collection_run(1) [OF r' f']
    note len = collection_run(2) [OF r' f']
    note ent = collection_run(3) [OF r' f' i]
    from out q obtain qs where "resolutions (map snd (entries_after r)) = Some qs"
      by (auto simp add: promise_all_Inr)
    then have "list_all2 (\<lambda>c q. \<exists>r. c = Some r \<and> outcome r = Inr q)
        (map snd (entries_after r)) qs"
      by (simp add: resolutions_Some)
    then have "\<forall>j<length (entries_after r).
        \<exists>r'. snd (entries_after r ! j) = Some r' \<and> outcome r' = Inr (qs ! j)"
      by (simp add: list_all2_conv_all_nth)
    with i len obtain ri where ri: "snd (entries_after r ! i) = Some ri"
      and oi: "outcome ri = Inr (qs ! i)"
      by auto
    have o: "is_object (entries ! i)"
    proof (rule ccontr)
      assume "\<not> is_object (entries ! i)"
      with ent ri have "ri = Run (entries ! i) (Inl TypeError) []" by simp
      with oi show False by simp
    qed
    with ent ri have "getInstance env fuel (p @ [i]) (?e i) = Some ri" by simp
    with o oi show ?thesis by blast
  qed
  from fwd bwd show ?thesis by blast
qed

theorem collection_in_manifest_order_witness:
  "\<exists>c la lb rs. getInstance (sample_env ''0.4fzyo82mvyr'') (Suc 0) []
        (JObj [(''type'', JStr ''LAYERCOLLECTION''), (''url'', JStr ''layers.json'')])
      = Some (Run c (Inr (PArray [PLayer la, PLayer lb])) rs)
     \<and> layer_opt la ''lid'' = Some (Val (JStr ''a''))
     \<and> layer_opt lb ''lid'' = Some (Val (JStr ''b''))"
proof -
  let ?E = "sample_env ''0.4fzyo82mvyr''"
  let ?c = "[(''type'', JStr ''LAYERCOLLECTION''), (''url'', JStr ''layers.json'')]"
  let ?a = "JObj [(''name'', JStr ''a''), (''type'', JStr ''OSM'')]"
  let ?b = "JObj [(''name'', JStr ''b''), (''type'', JStr ''OSM'')]"
  have ty: "get_prop (JObj ?c) ''type'' = JStr ''LAYERCOLLECTION''"
    by (simp add: get_prop_def)
  have fetch: "fetchJson ?E [] (get_prop (JObj ?c) ''url'') = Inr (JArr [?a, ?b] [])"
    by (simp add: get_prop_def sample_env_def)
  have res: "\<forall>i<length [?a, ?b]. is_object ([?a, ?b] ! i) \<and>
            (\<exists>r q. getInstance ?E 0 ([] @ [i])
                 (set_prop ([?a, ?b] ! i) ''lid'' (get_prop ([?a, ?b] ! i) ''name'')) = Some r
               \<and> outcome r = Inr q)"
    by (simp add: All_less_Suc run_simps)
  from collection_in_manifest_order [OF ty fetch, of 0] res
  obtain c qs rs where run: "getInstance ?E (Suc 0) [] (JObj ?c) = Some (Run c (Inr (PArray qs)) rs)"
    and len: "length qs = length [?a, ?b]"
    and ent: "\<forall>i<length [?a, ?b].
                  map_option outcome (getInstance ?E 0 ([] @ [i])
                    (set_prop ([?a, ?b] ! i) ''lid'' (get_prop ([?a, ?b] ! i) ''name'')))
                  = Some (Inr (qs ! i))
                  \<and> (\<forall>l. qs ! i = PLayer l \<and> truthy (get_prop ([?a, ?b] ! i) ''name'') \<longrightarrow>
                        layer_opt l ''lid'' = Some (Val (get_prop ([?a, ?b] ! i) ''name'')))"
    by blast
  from ent have "\<exists>la. PLayer la = qs ! 0" "\<exists>lb. PLayer lb = qs ! 1"
    by (simp add: All_less_Suc run_simps, blast)+
  then obtain la lb where q: "qs ! 0 = PLayer la" "qs ! 1 = PLayer lb"
    by metis
  from ent q have lid: "layer_opt la ''lid'' = Some (Val (JStr ''a''))"
      "layer_opt lb ''lid'' = Some (Val (JStr ''b''))"
    by (simp_all add: All_less_Suc get_prop_def)
  from len q have "qs = [PLayer la, PLayer lb]"
    by (cases qs; cases "tl qs"; cases "tl (tl qs)") auto
  with run lid show ?thesis by blast
qed

section \<open>Options read back from a layer\<close>

text \<open>
  Which builders hand the \<^verbatim>\<open>extent\<close> of the configuration to the layer: those of WMS and
  VECTOR do, those of XYZ, OSM and VECTORTILE pass no \<^verbatim>\<open>extent\<close> option at all.
\<close>

lemma produced_layer_extent:
  assumes "getInstance env fuel p (JObj ps) = Some r" and "outcome r = Inr (PLayer l)"
  shows "layer_opt l ''extent'' =
     (if get_prop (JObj ps) ''type'' = JStr ''WMS'' \<or> get_prop (JObj ps) ''type'' = JStr ''VECTOR''
      then Some (Val (get_prop (JObj ps) ''extent'')) else None)"
proof -
  have "get_prop (conf_after r) ''type'' = get_prop (JObj ps) ''type''"
    "get_prop (conf_after r) ''extent'' = get_prop (JObj ps) ''extent''"
    using getInstance_conf_after [OF assms(1)] by (simp_all add: get_prop_apply_lid)
  with produced_layer_cases [OF assms] show ?thesis
    by (auto simp add: builders split: option.splits)
qed

text \<open>
  Claim C5.  The claim is that the \<^verbatim>\<open>visible\<close>, \<^verbatim>\<open>opacity\<close> and \<^verbatim>\<open>extent\<close> read back from a
  produced layer are the values of the configuration, for each of the five layer types.
  \<^verbatim>\<open>createWmsLayer\<close> and \<^verbatim>\<open>createVectorLayer\<close> pass \<^verbatim>\<open>extent: lConf.extent\<close>; \<^verbatim>\<open>createXyzLayer\<close>,
  \<^verbatim>\<open>createOsmLayer\<close> and \<^verbatim>\<open>createVectorTileLayer\<close> leave the line out.  An XYZ configuration
  with an \<^verbatim>\<open>extent\<close> gets a layer that has its \<^verbatim>\<open>visible\<close> and \<^verbatim>\<open>opacity\<close> but no \<^verbatim>\<open>extent\<close>.
\<close>

theorem xyz_layer_drops_extent:
  "getInstance (sample_env ''0.4fzyo82mvyr'') 0 []
      (JObj [(''type'', JStr ''XYZ''), (''lid'', JStr ''x1''), (''url'', JStr ''https://tiles.example/{z}/{x}/{y}.png''),
             (''extent'', JArr [JNum 0, JNum 0, JNum 10, JNum 10] []),
             (''visible'', JBool True), (''opacity'', JNum (1/2))])
   = Some (Run
      (JObj [(''type'', JStr ''XYZ''), (''lid'', JStr ''x1''), (''url'', JStr ''https://tiles.example/{z}/{x}/{y}.png''),
             (''extent'', JArr [JNum 0, JNum 0, JNum 10, JNum 10] []),
             (''visible'', JBool True), (''opacity'', JNum (1/2))])
      (Inr (PLayer (Layer TileLayer
         [(''name'', Val JUndefined),
          (''lid'', Val (JStr ''x1'')),
          (''displayInLayerList'', Val JUndefined),
          (''selectable'', Val (JBool False)),
          (''visible'', Val (JBool True)),
          (''opacity'', Val (JNum (1/2))),
          (''source'', Src (Source XyzSource [(''url'', SVal (JStr ''https://tiles.example/{z}/{x}/{y}.png''))]))])))
      [])
   \<and> layer_opt (Layer TileLayer
         [(''name'', Val JUndefined),
          (''lid'', Val (JStr ''x1'')),
          (''displayInLayerList'', Val JUndefined),
          (''selectable'', Val (JBool False)),
          (''visible'', Val (JBool True)),
          (''opacity'', Val (JNum (1/2))),
          (''source'', Src (Source XyzSource [(''url'', SVal (JStr ''https://tiles.example/{z}/{x}/{y}.png''))]))]) ''extent''
       = (None :: jsval optval option)"
  by (simp add: getInstance.simps(1) apply_lid_def sample_env_def get_prop_def Let_def createXyzLayer_def js_or_def)

text \<open>
  Claim C10.  For a configuration of type WMS, XYZ, OSM, VECTOR or VECTORTILE the call
  settles, with a layer unless the \<^verbatim>\<open>format\<close> of a vector type finds no constructor.  The
  \<^verbatim>\<open>selectable\<close> option of the produced layer is \<^verbatim>\<open>false\<close> when the configuration's
  \<^verbatim>\<open>selectable\<close> is absent or falsy, and the configuration's value when that is truthy;
  \<^verbatim>\<open>visible\<close>, \<^verbatim>\<open>opacity\<close> and \<^verbatim>\<open>name\<close> are copied as they are, \<^verbatim>\<open>undefined\<close> when absent.
\<close>

theorem selectable_default:
  assumes ty: "get_prop (JObj ps) ''type'' = JStr ''WMS''
       \<or> get_prop (JObj ps) ''type'' = JStr ''XYZ''
       \<or> get_prop (JObj ps) ''type'' = JStr ''OSM''
       \<or> get_prop (JObj ps) ''type'' = JStr ''VECTOR''
       \<or> get_prop (JObj ps) ''type'' = JStr ''VECTORTILE''"
  shows "\<exists>r. getInstance env fuel p (JObj ps) = Some r
     \<and> (\<forall>l. outcome r = Inr (PLayer l) \<longrightarrow>
          layer_opt l ''selectable'' =
            Some (Val (if truthy (get_prop (JObj ps) ''selectable'')
                       then get_prop (JObj ps) ''selectable'' else JBool False))
          \<and> layer_opt l ''visible'' = Some (Val (get_prop (JObj ps) ''visible''))
          \<and> layer_opt l ''opacity'' = Some (Val (get_prop (JObj ps) ''opacity''))
          \<and> layer_opt l ''name'' = Some (Val (get_prop (JObj ps) ''name'')))
     \<and> ((\<exists>l. outcome r = Inr (PLayer l))
          \<or> outcome r = Inl TypeError
             \<and> format_constructor (get_prop (JObj ps) ''format'') = None)"
proof -
  from ty have "get_prop (JObj ps) ''type'' \<noteq> JStr ''LAYERCOLLECTION''" by auto
  from getInstance_returns [OF this] obtain r
    where r: "getInstance env fuel p (JObj ps) = Some r" by blast
  have same: "get_prop (conf_after r) k = get_prop (JObj ps) k" if "k \<noteq> ''lid''" for k
    using getInstance_conf_after [OF r] that by (simp add: get_prop_apply_lid)
  have opts: "layer_opt l ''selectable'' =
            Some (Val (if truthy (get_prop (JObj ps) ''selectable'')
                       then get_prop (JObj ps) ''selectable'' else JBool False))
          \<and> layer_opt l ''visible'' = Some (Val (get_prop (JObj ps) ''visible''))
          \<and> layer_opt l ''opacity'' = Some (Val (get_prop (JObj ps) ''opacity''))
          \<and> layer_opt l ''name'' = Some (Val (get_prop (JObj ps) ''name''))"
    if l: "outcome r = Inr (PLayer l)" for l
  proof -
    have "layer_opt l ''selectable'' = Some (Val (js_or (get_prop (conf_after r) ''selectable'') (JBool False)))
      \<and> layer_opt l ''visible'' = Some (Val (get_prop (conf_after r) ''visible''))
      \<and> layer_opt l ''opacity'' = Some (Val (get_prop (conf_after r) ''opacity''))
      \<and> layer_opt l ''name'' = Some (Val (get_prop (conf_after r) ''name''))"
      using produced_layer_cases [OF r l]
      by (auto simp add: createWmsLayer_def createXyzLayer_def createOsmLayer_def
          createVectorLayer_def createVectorTileLayer_def new_format_def split: option.splits)
    then show ?thesis by (simp add: same js_or_def)
  qed
  have alt: "(\<exists>l. outcome r = Inr (PLayer l))
          \<or> outcome r = Inl TypeError
             \<and> format_constructor (get_prop (JObj ps) ''format'') = None"
    using r ty
    by (auto simp add: getInstance.simps(1) apply_lid_def Let_def get_prop_put createVectorLayer_def
        createVectorTileLayer_def new_format_def as_layer_def split: if_splits option.splits)
  from r opts alt show ?thesis by blast
qed

theorem selectable_default_witness:
  "\<exists>r l. getInstance (sample_env ''0.4fzyo82mvyr'') 0 []
       (JObj [(''type'', JStr ''VECTOR''), (''format'', JStr ''KML''), (''selectable'', JNum 0),
              (''visible'', JBool False)]) = Some r
     \<and> outcome r = Inr (PLayer l)
     \<and> layer_opt l ''selectable'' = Some (Val (JBool False))
     \<and> layer_opt l ''visible'' = Some (Val (JBool False))
     \<and> layer_opt l ''opacity'' = Some (Val JUndefined)"
proof -
  let ?E = "sample_env ''0.4fzyo82mvyr''"
  let ?c = "[(''type'', JStr ''VECTOR''), (''format'', JStr ''KML''), (''selectable'', JNum 0),
             (''visible'', JBool False)]"
  have ty: "get_prop (JObj ?c) ''type'' = JStr ''WMS''
       \<or> get_prop (JObj ?c) ''type'' = JStr ''XYZ''
       \<or> get_prop (JObj ?c) ''type'' = JStr ''OSM''
       \<or> get_prop (JObj ?c) ''type'' = JStr ''VECTOR''
       \<or> get_prop (JObj ?c) ''type'' = JStr ''VECTORTILE''"
    by (simp add: get_prop_def)
  from selectable_default [OF ty, where env = ?E and fuel = 0 and p = "[]"]
  obtain r where r: "getInstance ?E 0 [] (JObj ?c) = Some r"
    and opts: "\<forall>l. outcome r = Inr (PLayer l) \<longrightarrow>
          layer_opt l ''selectable'' =
            Some (Val (if truthy (get_prop (JObj ?c) ''selectable'')
                       then get_prop (JObj ?c) ''selectable'' else JBool False))
          \<and> layer_opt l ''visible'' = Some (Val (get_prop (JObj ?c) ''visible''))
          \<and> layer_opt l ''opacity'' = Some (Val (get_prop (JObj ?c) ''opacity''))
          \<and> layer_opt l ''name'' = Some (Val (get_prop (JObj ?c) ''name''))"
    by blast
  from r obtain l where l: "outcome r = Inr (PLayer l)"
    by (auto simp add: run_simps format_constructor_def formatMapping_def)
  from opts l have "layer_opt l ''selectable'' = Some (Val (JBool False))
     \<and> layer_opt l ''visible'' = Some (Val (JBool False))
     \<and> layer_opt l ''opacity'' = Some (Val JUndefined)"
    by (simp add: get_prop_def)
  with r l show ?thesis by blast
qed

section \<open>Vector formats\<close>

text \<open>
  Claim C6.  For a configuration of type VECTOR whose \<^verbatim>\<open>format\<close> is one of the four names of
  the format table, the format of the source is the constructor the table gives for that
  name, applied to the configuration's \<^verbatim>\<open>formatConfig\<close>: the MVT format for \<^verbatim>\<open>MVT\<close>, the
  GeoJSON format for \<^verbatim>\<open>GeoJSON\<close>, the TopoJSON format for \<^verbatim>\<open>TopoJSON\<close> and the KML format
  for \<^verbatim>\<open>KML\<close>.
\<close>

theorem vector_format_from_table:
  assumes ty: "get_prop (JObj ps) ''type'' = JStr ''VECTOR''"
    and fmt: "get_prop (JObj ps) ''format'' = JStr f"
    and f: "f = ''MVT'' \<or> f = ''GeoJSON'' \<or> f = ''TopoJSON'' \<or> f = ''KML''"
  shows "\<exists>conf l s. getInstance env fuel p (JObj ps) = Some (Run conf (Inr (PLayer l)) [])
       \<and> layer_opt l ''source'' = Some (Src s)
       \<and> source_opt s ''format'' =
           Some (SFormat (Format
             (if f = ''MVT'' then MvtFormat
              else if f = ''GeoJSON'' then GeoJsonFormat
              else if f = ''TopoJSON'' then TopoJsonFormat
              else KmlFormat)
             [get_prop (JObj ps) ''formatConfig'']))"
proof -
  have fc: "format_constructor (JStr f) =
      Some (if f = ''MVT'' then MvtFormat
            else if f = ''GeoJSON'' then GeoJsonFormat
            else if f = ''TopoJSON'' then TopoJsonFormat
            else KmlFormat)"
    using f by (auto simp add: format_constructor_def formatMapping_def)
  show ?thesis
    using ty fmt fc
    by (simp add: getInstance.simps(1) apply_lid_def get_prop_put Let_def createVectorLayer_def
        new_format_def as_layer_def)
qed

theorem vector_format_from_table_witness:
  "(\<exists>conf l s. getInstance (sample_env ''0.4fzyo82mvyr'') 0 []
        (JObj [(''type'', JStr ''VECTOR''), (''format'', JStr ''GeoJSON''),
               (''formatConfig'', JObj [(''dataProjection'', JStr ''EPSG:4326'')])])
        = Some (Run conf (Inr (PLayer l)) [])
       \<and> layer_opt l ''source'' = Some (Src s)
       \<and> source_opt s ''format'' =
           Some (SFormat (Format GeoJsonFormat
             [JObj [(''dataProjection'', JStr ''EPSG:4326'')]])))
   \<and> (\<exists>conf l s. getInstance (sample_env ''0.4fzyo82mvyr'') 0 []
        (JObj [(''type'', JStr ''VECTOR''), (''format'', JStr ''KML'')])
        = Some (Run conf (Inr (PLayer l)) [])
       \<and> layer_opt l ''source'' = Some (Src s)
       \<and> source_opt s ''format'' = Some (SFormat (Format KmlFormat [JUndefined])))
   \<and> (\<exists>conf l s. getInstance (sample_env ''0.4fzyo82mvyr'') 0 []
        (JObj [(''type'', JStr ''VECTOR''), (''format'', JStr ''MVT'')])
        = Some (Run conf (Inr (PLayer l)) [])
       \<and> layer_opt l ''source'' = Some (Src s)
       \<and> source_opt s ''format'' = Some (SFormat (Format MvtFormat [JUndefined])))
   \<and> (\<exists>conf l s. getInstance (sample_env ''0.4fzyo82mvyr'') 0 []
        (JObj [(''type'', JStr ''VECTOR''), (''format'', JStr ''TopoJSON'')])
        = Some (Run conf (Inr (PLayer l)) [])
       \<and> layer_opt l ''source'' = Some (Src s)
       \<and> source_opt s ''format'' = Some (SFormat (Format TopoJsonFormat [JUndefined])))"
proof (intro conjI)
  show "\<exists>conf l s. getInstance (sample_env ''0.4fzyo82mvyr'') 0 []
        (JObj [(''type'', JStr ''VECTOR''), (''format'', JStr ''GeoJSON''),
               (''formatConfig'', JObj [(''dataProjection'', JStr ''EPSG:4326'')])])
        = Some (Run conf (Inr (PLayer l)) [])
       \<and> layer_opt l ''source'' = Some (Src s)
       \<and> source_opt s ''format'' =
           Some (SFormat (Format GeoJsonFormat
             [JObj [(''dataProjection'', JStr ''EPSG:4326'')]]))"
    using vector_format_from_table
      [of "[(''type'', JStr ''VECTOR''), (''format'', JStr ''GeoJSON''),
            (''formatConfig'', JObj [(''dataProjection'', JStr ''EPSG:4326'')])]"
          "''GeoJSON''" "sample_env ''0.4fzyo82mvyr''" 0 "[]"]
    by (simp add: get_prop_def)
  show "\<exists>conf l s. getInstance (sample_env ''0.4fzyo82mvyr'') 0 []
        (JObj [(''type'', JStr ''VECTOR''), (''format'', JStr ''KML'')])
        = Some (Run conf (Inr (PLayer l)) [])
       \<and> layer_opt l ''source'' = Some (Src s)
       \<and> source_opt s ''format'' = Some (SFormat (Format KmlFormat [JUndefined]))"
    using vector_format_from_table
      [of "[(''type'', JStr ''VECTOR''), (''format'', JStr ''KML'')]"
          "''KML''" "sample_env ''0.4fzyo82mvyr''" 0 "[]"]
    by (simp add: get_prop_def)
  show "\<exists>conf l s. getInstance (sample_env ''0.4fzyo82mvyr'') 0 []
        (JObj [(''type'', JStr ''VECTOR''), (''format'', JStr ''MVT'')])
        = Some (Run conf (Inr (PLayer l)) [])
       \<and> layer_opt l ''source'' = Some (Src s)
       \<and> source_opt s ''format'' = Some (SFormat (Format MvtFormat [JUndefined]))"
    using vector_format_from_table
      [of "[(''type'', JStr ''VECTOR''), (''format'', JStr ''MVT'')]"
          "''MVT''" "sample_env ''0.4fzyo82mvyr''" 0 "[]"]
    by (simp add: get_prop_def)
  show "\<exists>conf l s. getInstance (sample_env ''0.4fzyo82mvyr'') 0 []
        (JObj [(''type'', JStr ''VECTOR''), (''format'', JStr ''TopoJSON'')])
        = Some (Run conf (Inr (PLayer l)) [])
       \<and> layer_opt l ''source'' = Some (Src s)
       \<and> source_opt s ''format'' = Some (SFormat (Format TopoJsonFormat [JUndefined]))"
    using vector_format_from_table
      [of "[(''type'', JStr ''VECTOR''), (''format'', JStr ''TopoJSON'')]"
          "''TopoJSON''" "sample_env ''0.4fzyo82mvyr''" 0 "[]"]
    by (simp add: get_prop_def)
qed

text \<open>
  Claim C7, as amended.  The claim says that construction fails for every configuration of
  type VECTOR or VECTORTILE whose \<^verbatim>\<open>format\<close> is none of MVT, GeoJSON, TopoJSON and KML.  The
  lookup \<^verbatim>\<open>this.formatMapping[lConf.format]\<close> also finds \<^verbatim>\<open>constructor\<close>, which every object
  literal inherits and which \<^verbatim>\<open>new\<close> accepts, and it converts its key to a string, so the
  array \<^verbatim>\<open>["KML"]\<close> finds what the string \<^verbatim>\<open>KML\<close> finds.  What holds: when the \<^verbatim>\<open>format\<close> field,
  converted to a property name, is none of MVT, GeoJSON, TopoJSON, KML and
  \<^verbatim>\<open>constructor\<close>, the call rejects with a TypeError and no layer is returned.
\<close>

theorem unsupported_format_fails:
  assumes "get_prop (JObj ps) ''type'' = JStr ''VECTOR''
         \<or> get_prop (JObj ps) ''type'' = JStr ''VECTORTILE''"
    and "to_property_key (get_prop (JObj ps) ''format'') \<notin>
           Some ` {''MVT'', ''GeoJSON'', ''TopoJSON'', ''KML'', ''constructor''}"
  shows "map_option outcome (getInstance env fuel p (JObj ps)) = Some (Inl TypeError)"
proof -
  have "format_constructor (get_prop (JObj ps) ''format'') = None"
    using assms(2) format_constructor_None by blast
  then show ?thesis using assms(1)
    by (auto simp add: getInstance.simps(1) apply_lid_def get_prop_put Let_def createVectorLayer_def
        createVectorTileLayer_def new_format_def as_layer_def)
qed

theorem unsupported_format_fails_witness:
  "map_option outcome (getInstance (sample_env ''0.4fzyo82mvyr'') 0 []
      (JObj [(''type'', JStr ''VECTOR''), (''format'', JStr ''GML'')])) = Some (Inl TypeError)
   \<and> map_option outcome (getInstance (sample_env ''0.4fzyo82mvyr'') 0 []
      (JObj [(''type'', JStr ''VECTORTILE'')])) = Some (Inl TypeError)"
  using unsupported_format_fails
      [of "[(''type'', JStr ''VECTOR''), (''format'', JStr ''GML'')]"
          "sample_env ''0.4fzyo82mvyr''" 0 "[]"]
    unsupported_format_fails
      [of "[(''type'', JStr ''VECTORTILE'')]" "sample_env ''0.4fzyo82mvyr''" 0 "[]"]
  by (simp add: get_prop_def)

text \<open>
  The claim as stated fails for the format name \<^verbatim>\<open>constructor\<close>: a layer is returned, its
  format built by \<^verbatim>\<open>new Object()\<close>.
\<close>

theorem unsupported_format_counterexample:
  "getInstance (sample_env ''0.4fzyo82mvyr'') 0 []
      (JObj [(''type'', JStr ''VECTORTILE''), (''lid'', JStr ''v1''),
             (''format'', JStr ''constructor'')])
   = Some (Run
        (JObj [(''type'', JStr ''VECTORTILE''), (''lid'', JStr ''v1''),
               (''format'', JStr ''constructor'')])
        (Inr (PLayer (Layer VectorTileLayer
          [(''name'', Val JUndefined),
           (''lid'', Val (JStr ''v1'')),
           (''displayInLayerList'', Val JUndefined),
           (''selectable'', Val (JBool False)),
           (''visible'', Val JUndefined),
           (''opacity'', Val JUndefined),
           (''source'', Src (Source VectorTileSource
              [(''url'', SVal JUndefined),
               (''format'', SFormat (Format ObjectConstructor [])),
               (''attributions'', SVal JUndefined)])),
           (''style'', Sty JUndefined),
           (''hoverable'', Val JUndefined),
           (''hoverAttribute'', Val JUndefined)])))
        [])"
  by (simp add: getInstance.simps(1) apply_lid_def sample_env_def get_prop_def Let_def
      createVectorTileLayer_def new_format_def format_constructor_def formatMapping_def
      as_layer_def js_or_def)

section \<open>The tile service layer\<close>

text \<open>
  Claim C8.  For a configuration of type WMS the query parameters of the constructed source
  are taken from the configuration: \<^verbatim>\<open>LAYERS\<close> is its \<^verbatim>\<open>layers\<close> field and \<^verbatim>\<open>TILED\<close> its
  \<^verbatim>\<open>tiled\<close> field.  With \<^verbatim>\<open>layers: "roads"\<close> and \<^verbatim>\<open>tiled: true\<close> the parameters are
  \<^verbatim>\<open>LAYERS=roads\<close> and \<^verbatim>\<open>TILED=true\<close> (the witness).
\<close>

theorem wms_params_from_config:
  assumes "get_prop (JObj ps) ''type'' = JStr ''WMS''"
  shows "\<exists>c l s. getInstance env fuel p (JObj ps) = Some (Run c (Inr (PLayer l)) [])
     \<and> layer_opt l ''source'' = Some (Src s)
     \<and> source_opt s ''params'' = Some (SVal (JObj
          [(''LAYERS'', get_prop (JObj ps) ''layers''),
           (''TILED'', get_prop (JObj ps) ''tiled'')]))"
  using assms by (simp add: getInstance.simps(1) apply_lid_def get_prop_put Let_def createWmsLayer_def)

theorem wms_params_from_config_witness:
  "\<exists>c l s. getInstance (sample_env ''0.4fzyo82mvyr'') 0 []
       (JObj [(''type'', JStr ''WMS''), (''layers'', JStr ''roads''), (''tiled'', JBool True)])
       = Some (Run c (Inr (PLayer l)) [])
     \<and> layer_opt l ''source'' = Some (Src s)
     \<and> source_opt s ''params'' = Some (SVal (JObj
          [(''LAYERS'', JStr ''roads''), (''TILED'', JBool True)]))"
  using wms_params_from_config
      [of "[(''type'', JStr ''WMS''), (''layers'', JStr ''roads''), (''tiled'', JBool True)]"
          "sample_env ''0.4fzyo82mvyr''" 0 "[]"]
  by (simp add: get_prop_def)

section \<open>The basemap layer\<close>

text \<open>
  Claim C9.  Two configurations of type OSM that agree on every field except \<^verbatim>\<open>url\<close> produce
  the same layer (in the same environment, so with the same generated identifier when
  they have none): the \<^verbatim>\<open>url\<close> field does not influence what \<^verbatim>\<open>getInstance\<close> resolves with,
  and the source is always the basemap source constructed without arguments.
\<close>

theorem osm_ignores_url:
  assumes "get_prop (JObj ps) ''type'' = JStr ''OSM''"
    and "\<forall>k. k \<noteq> ''url'' \<longrightarrow> get_prop (JObj qs) k = get_prop (JObj ps) k"
  shows "map_option outcome (getInstance env fuel p (JObj qs)) =
         map_option outcome (getInstance env fuel p (JObj ps))
     \<and> (\<exists>c l. getInstance env fuel p (JObj ps) = Some (Run c (Inr (PLayer l)) [])
          \<and> layer_opt l ''source'' = Some (Src (Source OsmSource [])))"
proof -
  have q: "get_prop (JObj qs) ''type'' = JStr ''OSM''"
    "get_prop (JObj qs) ''lid'' = get_prop (JObj ps) ''lid''"
    "get_prop (JObj qs) ''name'' = get_prop (JObj ps) ''name''"
    "get_prop (JObj qs) ''displayInLayerList'' = get_prop (JObj ps) ''displayInLayerList''"
    "get_prop (JObj qs) ''selectable'' = get_prop (JObj ps) ''selectable''"
    "get_prop (JObj qs) ''visible'' = get_prop (JObj ps) ''visible''"
    "get_prop (JObj qs) ''opacity'' = get_prop (JObj ps) ''opacity''"
    using assms by simp_all
  show ?thesis
    using assms(1) q
    by (simp add: getInstance.simps(1) apply_lid_def get_prop_put Let_def createOsmLayer_def)
qed

theorem osm_ignores_url_witness:
  "map_option outcome (getInstance (sample_env ''0.4fzyo82mvyr'') 0 []
       (JObj [(''type'', JStr ''OSM''), (''url'', JStr ''https://tiles.example/one''),
              (''name'', JStr ''base'')])) =
   map_option outcome (getInstance (sample_env ''0.4fzyo82mvyr'') 0 []
       (JObj [(''type'', JStr ''OSM''), (''name'', JStr ''base'')]))"
  using osm_ignores_url
      [of "[(''type'', JStr ''OSM''), (''name'', JStr ''base'')]"
          "[(''type'', JStr ''OSM''), (''url'', JStr ''https://tiles.example/one''),
            (''name'', JStr ''base'')]"
          "sample_env ''0.4fzyo82mvyr''" 0 "[]"]
  by (simp add: get_prop_def)

end
